theory Spec2Isabelle
  imports Main "HOL-Library.Sublist"
begin

section \<open>JavaScript strings and values\<close>

text \<open>
  A JavaScript string is modelled as a \<^typ>\<open>string\<close>: the list of its code units, each
  below 256 (the Latin-1 range). On that range the three string methods the components
  use are exact: \<open>trim\<close> strips the code units 9 to 13, 32 and 160, \<open>toLowerCase\<close>
  maps \<open>A\<close>..\<open>Z\<close> and the upper-case letters 192..222 (except the multiplication sign 215)
  to the letter 32 places further, and \<open>includes\<close> is the search for a contiguous
  occurrence.
\<close>

definition js_whitespace :: "char list" where
  "js_whitespace = [CHR 0x09, CHR 0x0A, CHR 0x0B, CHR 0x0C, CHR 0x0D, CHR 0x20, CHR 0xA0]"

definition is_whitespace :: "char \<Rightarrow> bool" where
  "is_whitespace c = (c \<in> set js_whitespace)"

definition trim :: "string \<Rightarrow> string" where
  "trim s = rev (dropWhile is_whitespace (rev (dropWhile is_whitespace s)))"

definition lower_table :: "(char \<times> char) list" where
  "lower_table =
     zip ''ABCDEFGHIJKLMNOPQRSTUVWXYZ'' ''abcdefghijklmnopqrstuvwxyz'' @
     [(CHR 0xC0, CHR 0xE0), (CHR 0xC1, CHR 0xE1), (CHR 0xC2, CHR 0xE2), (CHR 0xC3, CHR 0xE3),
      (CHR 0xC4, CHR 0xE4), (CHR 0xC5, CHR 0xE5), (CHR 0xC6, CHR 0xE6), (CHR 0xC7, CHR 0xE7),
      (CHR 0xC8, CHR 0xE8), (CHR 0xC9, CHR 0xE9), (CHR 0xCA, CHR 0xEA), (CHR 0xCB, CHR 0xEB),
      (CHR 0xCC, CHR 0xEC), (CHR 0xCD, CHR 0xED), (CHR 0xCE, CHR 0xEE), (CHR 0xCF, CHR 0xEF),
      (CHR 0xD0, CHR 0xF0), (CHR 0xD1, CHR 0xF1), (CHR 0xD2, CHR 0xF2), (CHR 0xD3, CHR 0xF3),
      (CHR 0xD4, CHR 0xF4), (CHR 0xD5, CHR 0xF5), (CHR 0xD6, CHR 0xF6), (CHR 0xD8, CHR 0xF8),
      (CHR 0xD9, CHR 0xF9), (CHR 0xDA, CHR 0xFA), (CHR 0xDB, CHR 0xFB), (CHR 0xDC, CHR 0xFC),
      (CHR 0xDD, CHR 0xFD), (CHR 0xDE, CHR 0xFE)]"

definition lower_char :: "char \<Rightarrow> char" where
  "lower_char c = (case map_of lower_table c of Some l \<Rightarrow> l | None \<Rightarrow> c)"

definition toLowerCase :: "string \<Rightarrow> string" where
  "toLowerCase s = map lower_char s"

text \<open>\<open>s.includes(q)\<close>: is there a position of \<open>s\<close> at which \<open>q\<close> starts?\<close>

fun js_includes :: "string \<Rightarrow> string \<Rightarrow> bool" where
  "js_includes [] q = (q = [])"
| "js_includes (c # cs) q = (prefix q (c # cs) \<or> js_includes cs q)"

text \<open>The decimal digits of a number, as a template literal prints it.\<close>

fun decimal :: "nat \<Rightarrow> string" where
  "decimal n =
     (if n < 10 then [''0123456789'' ! n]
      else decimal (n div 10) @ [''0123456789'' ! (n mod 10)])"

declare decimal.simps [simp del]

text \<open>
  Identifiers are numbers; \<open>null\<close> is \<open>None\<close>. A guard such as \<open>if (deletingId)\<close>
  tests JavaScript truthiness: \<open>null\<close> and the number 0 are falsy.
\<close>

fun truthy :: "nat option \<Rightarrow> bool" where
  "truthy None = False"
| "truthy (Some n) = (n \<noteq> 0)"

text \<open>
  What the network gives back for one request: no connection at all, or an HTTP reply
  with a status and a body that is JSON or is not. \<open>fetch\<close> rejects in the first case
  and resolves in the second whatever the status; \<open>res.json()\<close> rejects on a body that
  is not JSON; \<open>res.ok\<close> holds for the statuses 200 to 299.
\<close>

datatype 'a body = NotJson | Json 'a

datatype 'a net = NoConnection | Http nat "'a body"

definition ok :: "nat \<Rightarrow> bool" where
  "ok status = (200 \<le> status \<and> status \<le> 299)"

text \<open>The requests the components issue.\<close>

datatype http_request =
    GET_documents
  | GET_conversations
  | GET_conversation nat
  | DELETE_document nat
  | DELETE_conversation nat
  | PATCH_conversation_title nat string
  | POST_generate_summary nat
  | POST_chat string "nat option"

section \<open>The documents view (DocumentsView.jsx) and its owner (App.jsx)\<close>

record document =
  doc_id :: nat
  filename :: string
  file_type :: "string option"
  summary :: "string option"

text \<open>
  \<open>d.file_type?.toLowerCase().includes(q)\<close>: the optional chain gives \<open>undefined\<close>,
  which is falsy, when the field is \<open>null\<close>.
\<close>

fun opt_includes :: "string option \<Rightarrow> string \<Rightarrow> bool" where
  "opt_includes None q = False"
| "opt_includes (Some f) q = js_includes (toLowerCase f) q"

definition filtered :: "('a document_scheme) list \<Rightarrow> string \<Rightarrow> ('a document_scheme) list" where
  "filtered documents search =
     (if trim search = [] then documents
      else let q = toLowerCase search in
        filter (\<lambda>d. js_includes (toLowerCase (filename d)) q
                  \<or> opt_includes (file_type d) q
                  \<or> opt_includes (summary d) q) documents)"

text \<open>
  The page: the cache \<open>documents\<close> that App owns and passes down, the state of
  DocumentsView (\<open>search\<close>, \<open>deletingId\<close>, \<open>generatingId\<close>), and what is outstanding:
  the DELETE and generate-summary requests not yet settled, the timers not yet fired.
  \<open>requests\<close> logs every request issued, \<open>console\<close> every \<open>console.error\<close> and
  \<open>alerts\<close> every notification shown to the user.
\<close>

record documents_page =
  documents :: "document list"
  stats_documents :: int
  isLoading :: bool
  search :: string
  deletingId :: "nat option"
  generatingId :: "nat option"
  delete_pending :: "nat list"
  summary_pending :: "nat list"
  timers :: "nat list"
  requests :: "http_request list"
  console :: "string list"
  alerts :: "string list"

text \<open>App.deleteDocument, up to its \<open>await\<close> and from it on.\<close>

definition deleteDocument_start :: "nat \<Rightarrow> documents_page \<Rightarrow> documents_page" where
  "deleteDocument_start i s =
     s\<lparr>requests := requests s @ [DELETE_document i],
       delete_pending := delete_pending s @ [i]\<rparr>"

definition deleteDocument_settle :: "nat \<Rightarrow> unit net \<Rightarrow> documents_page \<Rightarrow> documents_page" where
  "deleteDocument_settle i reply s =
     (case reply of
        NoConnection \<Rightarrow> s\<lparr>console := console s @ [''Delete failed:'']\<rparr>
      | Http status b \<Rightarrow>
          if ok status
          then s\<lparr>documents := filter (\<lambda>d. doc_id d \<noteq> i) (documents s),
                 stats_documents := stats_documents s - 1\<rparr>
          else s)"

text \<open>App.fetchData, up to its \<open>await\<close>: the re-fetch that \<open>onRefresh\<close> stands for.\<close>

definition fetchData_start :: "documents_page \<Rightarrow> documents_page" where
  "fetchData_start s =
     s\<lparr>isLoading := True, requests := requests s @ [GET_documents, GET_conversations]\<rparr>"

text \<open>DocumentsView.handleDelete: the guard, the call of \<open>onDelete\<close>, and the rest after it returns.\<close>

definition handleDelete :: "nat \<Rightarrow> documents_page \<Rightarrow> documents_page" where
  "handleDelete i s =
     (if truthy (deletingId s) then s
      else deleteDocument_start i (s\<lparr>deletingId := Some i\<rparr>))"

definition handleDelete_settle :: "nat \<Rightarrow> unit net \<Rightarrow> documents_page \<Rightarrow> documents_page" where
  "handleDelete_settle i reply s =
     (deleteDocument_settle i reply s)
       \<lparr>deletingId := None, delete_pending := remove1 i (delete_pending s)\<rparr>"

text \<open>DocumentsView.handleGenerateSummary, the end of its \<open>await\<close>, and the timer's callback.\<close>

definition handleGenerateSummary :: "nat \<Rightarrow> documents_page \<Rightarrow> documents_page" where
  "handleGenerateSummary i s =
     (if truthy (generatingId s) then s
      else s\<lparr>generatingId := Some i,
             requests := requests s @ [POST_generate_summary i],
             summary_pending := summary_pending s @ [i]\<rparr>)"

definition handleGenerateSummary_settle :: "nat \<Rightarrow> unit net \<Rightarrow> documents_page \<Rightarrow> documents_page" where
  "handleGenerateSummary_settle i reply s =
     (case reply of
        Http status b \<Rightarrow>
          s\<lparr>timers := timers s @ [1000], summary_pending := remove1 i (summary_pending s)\<rparr>
      | NoConnection \<Rightarrow>
          s\<lparr>console := console s @ [''Failed to generate summary:''],
            generatingId := None, summary_pending := remove1 i (summary_pending s)\<rparr>)"

definition timer_callback :: "documents_page \<Rightarrow> documents_page" where
  "timer_callback s = (fetchData_start s)\<lparr>generatingId := None\<rparr>"

text \<open>
  The events of the page while the view is mounted: the clicks on a document's delete
  and generate buttons, the settling of a request, the firing of a timer, and typing in
  the search box. A request can settle only while it is outstanding and a timer can
  fire only once it is set; elsewhere the event changes nothing. Each handler runs on
  the state the event before it left: React renders between two events, so the guard
  of a handler never reads an older \<open>deletingId\<close> or \<open>generatingId\<close>.
\<close>

datatype page_event =
    ClickDelete nat
  | DeleteSettles nat "unit net"
  | ClickGenerate nat
  | SummarySettles nat "unit net"
  | TimerFires
  | TypeSearch string

fun step :: "page_event \<Rightarrow> documents_page \<Rightarrow> documents_page" where
  "step (ClickDelete i) s = handleDelete i s"
| "step (DeleteSettles i reply) s =
     (if i \<in> set (delete_pending s) then handleDelete_settle i reply s else s)"
| "step (ClickGenerate i) s = handleGenerateSummary i s"
| "step (SummarySettles i reply) s =
     (if i \<in> set (summary_pending s) then handleGenerateSummary_settle i reply s else s)"
| "step TimerFires s =
     (case timers s of [] \<Rightarrow> s | t # ts \<Rightarrow> timer_callback (s\<lparr>timers := ts\<rparr>))"
| "step (TypeSearch q) s = s\<lparr>search := q\<rparr>"

fun run :: "page_event list \<Rightarrow> documents_page \<Rightarrow> documents_page" where
  "run [] s = s"
| "run (e # es) s = run es (step e s)"

text \<open>The page with nothing outstanding, as it is when the view mounts.\<close>

definition idle :: "documents_page \<Rightarrow> bool" where
  "idle s = (deletingId s = None \<and> generatingId s = None \<and> delete_pending s = []
             \<and> summary_pending s = [] \<and> timers s = [])"

text \<open>Document identifiers are assigned by the server and are not 0.\<close>

fun proper_ids :: "page_event \<Rightarrow> bool" where
  "proper_ids (ClickDelete i) = (i \<noteq> 0)"
| "proper_ids (ClickGenerate i) = (i \<noteq> 0)"
| "proper_ids e = True"

text \<open>
  The words of the specification for the filter: a document matches a query when its
  filename, type or summary contains the query, case ignored.
\<close>

definition contains_ci :: "string \<Rightarrow> string \<Rightarrow> bool" where
  "contains_ci field q = sublist (toLowerCase q) (toLowerCase field)"

definition matches :: "string \<Rightarrow> 'a document_scheme \<Rightarrow> bool" where
  "matches q d =
     (contains_ci (filename d) q
      \<or> (case file_type d of None \<Rightarrow> False | Some t \<Rightarrow> contains_ci t q)
      \<or> (case summary d of None \<Rightarrow> False | Some t \<Rightarrow> contains_ci t q))"

text \<open>
  What holds of the page at every moment: at most one DELETE is outstanding and then
  \<open>deletingId\<close> names it; at most one of a generate-summary request and its timer is
  outstanding and then \<open>generatingId\<close> names the document.
\<close>

definition guarded :: "documents_page \<Rightarrow> bool" where
  "guarded s =
     ((delete_pending s = [] \<or> (\<exists>i. i \<noteq> 0 \<and> delete_pending s = [i] \<and> deletingId s = Some i))
      \<and> ((summary_pending s = [] \<and> timers s = [])
         \<or> (\<exists>i. i \<noteq> 0 \<and> generatingId s = Some i
               \<and> ((summary_pending s = [i] \<and> timers s = [])
                  \<or> (summary_pending s = [] \<and> length (timers s) = 1)))))"

text \<open>Two documents and an empty page, for the examples.\<close>

definition doc_report :: document where
  "doc_report =
     \<lparr>doc_id = 5, filename = ''report.pdf'', file_type = Some ''pdf'', summary = None\<rparr>"

definition doc_notes :: document where
  "doc_notes =
     \<lparr>doc_id = 7, filename = ''Notes.TXT'', file_type = Some ''txt'',
      summary = Some ''Quarterly figures''\<rparr>"

definition page0 :: documents_page where
  "page0 =
     \<lparr>documents = [doc_report, doc_notes], stats_documents = 2, isLoading = False, search = [],
      deletingId = None, generatingId = None, delete_pending = [], summary_pending = [],
      timers = [], requests = [], console = [], alerts = []\<rparr>"

section \<open>axios and abort controllers\<close>

text \<open>
  Four components call axios, three of them with the signal of an AbortController. Each
  controller a component creates is a position in its list of flags, set once
  \<open>abort()\<close> is called; \<open>abortControllerRef.current\<close> is the position of the latest.
\<close>

definition abort :: "nat option \<Rightarrow> bool list \<Rightarrow> bool list" where
  "abort ref flags = (case ref of None \<Rightarrow> flags | Some c \<Rightarrow> flags[c := True])"

definition is_aborted :: "bool list \<Rightarrow> nat \<Rightarrow> bool" where
  "is_aborted flags c = (c < length flags \<and> flags ! c)"

text \<open>
  What an axios promise settles to. A request whose signal is aborted rejects with a
  CanceledError whatever the network does afterwards. Otherwise a reply with a status
  from 200 to 299 fulfils the promise with the body as \<open>response.data\<close>; any other
  status rejects with an AxiosError that carries the response, and no connection
  rejects with the AxiosError \<open>Network Error\<close> that carries none.
\<close>

record 'a js_error =
  err_name :: string
  err_code :: "string option"
  err_message :: "string option"
  err_response :: "(nat \<times> 'a body) option"

datatype 'a settled = Fulfilled "'a body" | Failed "'a js_error"

definition CanceledError :: "'a js_error" where
  "CanceledError =
     \<lparr>err_name = ''CanceledError'', err_code = Some ''ERR_CANCELED'',
      err_message = Some ''canceled'', err_response = None\<rparr>"

definition NetworkError :: "'a js_error" where
  "NetworkError =
     \<lparr>err_name = ''AxiosError'', err_code = Some ''ERR_NETWORK'',
      err_message = Some ''Network Error'', err_response = None\<rparr>"

definition StatusError :: "nat \<Rightarrow> 'a body \<Rightarrow> 'a js_error" where
  "StatusError status b =
     \<lparr>err_name = ''AxiosError'',
      err_code = (if 400 \<le> status \<and> status < 500 then Some ''ERR_BAD_REQUEST''
                  else if 500 \<le> status \<and> status < 600 then Some ''ERR_BAD_RESPONSE''
                  else None),
      err_message = Some (''Request failed with status code '' @ decimal status),
      err_response = Some (status, b)\<rparr>"

definition axios :: "bool \<Rightarrow> 'a net \<Rightarrow> 'a settled" where
  "axios aborted reply =
     (if aborted then Failed CanceledError
      else case reply of
        NoConnection \<Rightarrow> Failed NetworkError
      | Http status b \<Rightarrow> if ok status then Fulfilled b else Failed (StatusError status b))"

text \<open>\<open>error.name !== 'CanceledError' && error.name !== 'AbortError'\<close>\<close>

definition not_cancelled :: "'a js_error \<Rightarrow> bool" where
  "not_cancelled e = (err_name e \<noteq> ''CanceledError'' \<and> err_name e \<noteq> ''AbortError'')"

section \<open>The document manager (DocumentManager.jsx)\<close>

text \<open>The bodies of the replies: \<open>{success, documents}\<close> and \<open>{success}\<close>.\<close>

record documents_data =
  docs_success :: bool
  docs_documents :: "document list option"

record delete_data =
  delete_success :: bool

record document_manager =
  dm_documents :: "document list"
  dm_loading :: bool
  dm_selectedDocs :: "nat list"
  dm_deleting :: bool
  dm_abortControllerRef :: "nat option"
  dm_aborted :: "bool list"
  dm_requests :: "http_request list"
  dm_console :: "string list"
  dm_alerts :: "string list"

text \<open>
  loadDocuments up to its \<open>await\<close>; the request carries the signal of the controller
  just created, which is \<open>dm_abortControllerRef\<close> of the result.
\<close>

definition loadDocuments_start :: "document_manager \<Rightarrow> document_manager" where
  "loadDocuments_start s =
     (let flags = abort (dm_abortControllerRef s) (dm_aborted s) in
      s\<lparr>dm_aborted := flags @ [False], dm_abortControllerRef := Some (length flags),
        dm_loading := True, dm_requests := dm_requests s @ [GET_documents]\<rparr>)"

text \<open>loadDocuments from its \<open>await\<close> on, for the request sent with signal \<open>c\<close>.\<close>

definition loadDocuments_settle ::
  "nat \<Rightarrow> documents_data net \<Rightarrow> document_manager \<Rightarrow> document_manager" where
  "loadDocuments_settle c reply s =
     (case axios (is_aborted (dm_aborted s) c) reply of
        Fulfilled (Json d) \<Rightarrow>
          if docs_success d
          then s\<lparr>dm_documents := (case docs_documents d of None \<Rightarrow> [] | Some ds \<Rightarrow> ds)\<rparr>
          else s
      | Fulfilled NotJson \<Rightarrow> s
      | Failed e \<Rightarrow>
          if not_cancelled e
          then s\<lparr>dm_console := dm_console s @ [''Error loading documents:'']\<rparr>
          else s)
       \<lparr>dm_loading := False\<rparr>"

text \<open>
  The cleanup of the mount effect, run when the component unmounts. After it the
  record goes on showing what the handlers write: React discards a write to the state
  of a component that is gone, but not what a handler logs or alerts.
\<close>

definition dm_unmount :: "document_manager \<Rightarrow> document_manager" where
  "dm_unmount s =
     s\<lparr>dm_aborted := abort (dm_abortControllerRef s) (dm_aborted s),
       dm_loading := False, dm_deleting := False\<rparr>"

text \<open>
  handleDelete. \<open>confirmed\<close> is the answer to \<open>window.confirm\<close>. The DELETE carries no
  signal. The rest of the handler filters the lists it closed over when it was called,
  \<open>docs\<close> and \<open>sel\<close>.
\<close>

definition dm_handleDelete_start :: "nat \<Rightarrow> bool \<Rightarrow> document_manager \<Rightarrow> document_manager" where
  "dm_handleDelete_start docId confirmed s =
     (if \<not> confirmed then s
      else s\<lparr>dm_deleting := True, dm_requests := dm_requests s @ [DELETE_document docId]\<rparr>)"

definition dm_handleDelete_settle ::
  "nat \<Rightarrow> document list \<Rightarrow> nat list \<Rightarrow> delete_data net \<Rightarrow> document_manager \<Rightarrow> document_manager"
  where
  "dm_handleDelete_settle docId docs sel reply s =
     (case axios False reply of
        Fulfilled (Json d) \<Rightarrow>
          if delete_success d
          then s\<lparr>dm_documents := filter (\<lambda>doc. doc_id doc \<noteq> docId) docs,
                 dm_selectedDocs := filter (\<lambda>i. i \<noteq> docId) sel\<rparr>
          else s
      | Fulfilled NotJson \<Rightarrow> s
      | Failed e \<Rightarrow>
          s\<lparr>dm_console := dm_console s @ [''Error deleting document:''],
            dm_alerts := dm_alerts s @ [''Failed to delete document. Please try again.'']\<rparr>)
       \<lparr>dm_deleting := False\<rparr>"

definition manager0 :: document_manager where
  "manager0 =
     \<lparr>dm_documents = [doc_report, doc_notes], dm_loading = False, dm_selectedDocs = [],
      dm_deleting = False, dm_abortControllerRef = None, dm_aborted = [], dm_requests = [],
      dm_console = [], dm_alerts = []\<rparr>"

section \<open>Messages and the replies of the chat endpoints\<close>

text \<open>
  A message as the views hold it. A missing \<open>sources\<close> field is the empty list (the
  views show sources only when there is one); \<open>created_at\<close> is the clock reading it
  was made from.
\<close>

record source =
  src_id :: nat
  src_filename :: string
  src_file_type :: string
  src_url :: "string option"

record message =
  msg_id :: "nat option"
  role :: string
  content :: string
  sources :: "source list"
  created_at :: "nat option"

text \<open>
  \<open>GET /api/conversations/{id}\<close> answers \<open>{success, conversation: {messages}}\<close>, where
  \<open>conversation\<close> or its \<open>messages\<close> may be missing; \<open>POST /api/chat\<close> answers
  \<open>{success, response, conversation_id, message_id, sources}\<close>, or \<open>{detail}\<close> on an error.
\<close>

record conversation_data =
  conv_success :: bool
  conv_messages :: "message list option option"

record chat_data =
  chat_success :: bool
  chat_response :: string
  chat_conversation_id :: "nat option"
  chat_message_id :: "nat option"
  chat_sources :: "source list option"
  chat_detail :: "string option"

section \<open>The chat view (ChatView.jsx)\<close>

record chat_view =
  cv_conversationId :: "nat option"
  cv_messages :: "message list"
  cv_input :: string
  cv_isLoading :: bool
  cv_isSending :: bool
  cv_currentConvId :: "nat option"
  cv_requests :: "http_request list"
  cv_created :: "nat list"
  cv_console :: "string list"

text \<open>loadConversation, up to its \<open>await\<close> and from it on. The fetch carries no signal.\<close>

definition cv_loadConversation_start :: "nat \<Rightarrow> chat_view \<Rightarrow> chat_view" where
  "cv_loadConversation_start i s =
     s\<lparr>cv_isLoading := True, cv_requests := cv_requests s @ [GET_conversation i]\<rparr>"

definition cv_load_failed :: "chat_view \<Rightarrow> chat_view" where
  "cv_load_failed s = s\<lparr>cv_console := cv_console s @ [''Load failed:'']\<rparr>"

definition cv_loadConversation_settle :: "conversation_data net \<Rightarrow> chat_view \<Rightarrow> chat_view" where
  "cv_loadConversation_settle reply s =
     (case reply of
        NoConnection \<Rightarrow> cv_load_failed s
      | Http status NotJson \<Rightarrow> cv_load_failed s
      | Http status (Json d) \<Rightarrow>
          if conv_success d then
            (case conv_messages d of
               None \<Rightarrow> cv_load_failed s
             | Some None \<Rightarrow> s\<lparr>cv_messages := []\<rparr>
             | Some (Some ms) \<Rightarrow> s\<lparr>cv_messages := ms\<rparr>)
          else s)
       \<lparr>cv_isLoading := False\<rparr>"

text \<open>
  The effect on the property \<open>conversationId\<close>. It runs when the view mounts and
  whenever the owner passes another value: selects a conversation, or none.
\<close>

definition cv_effect :: "chat_view \<Rightarrow> chat_view" where
  "cv_effect s =
     (let s1 = s\<lparr>cv_currentConvId := cv_conversationId s\<rparr> in
      case cv_conversationId s of
        None \<Rightarrow> s1\<lparr>cv_messages := []\<rparr>
      | Some i \<Rightarrow> if i \<noteq> 0 then cv_loadConversation_start i s1 else s1\<lparr>cv_messages := []\<rparr>)"

definition cv_select :: "nat option \<Rightarrow> chat_view \<Rightarrow> chat_view" where
  "cv_select conversationId s =
     (if conversationId = cv_conversationId s then s
      else cv_effect (s\<lparr>cv_conversationId := conversationId\<rparr>))"

definition cv_mount :: "nat option \<Rightarrow> chat_view" where
  "cv_mount conversationId =
     cv_effect
       \<lparr>cv_conversationId = conversationId, cv_messages = [], cv_input = [],
        cv_isLoading = False, cv_isSending = False, cv_currentConvId = conversationId,
        cv_requests = [], cv_created = [], cv_console = []\<rparr>"

text \<open>
  sendMessage, up to its \<open>await\<close> and from it on. \<open>now\<close> is the clock; \<open>conv\<close> is
  \<open>currentConvId\<close> as the handler closed over it when it was called.
\<close>

definition cv_sendMessage_start :: "nat \<Rightarrow> chat_view \<Rightarrow> chat_view" where
  "cv_sendMessage_start now s =
     (if trim (cv_input s) = [] \<or> cv_isSending s then s
      else s\<lparr>cv_input := [], cv_isSending := True,
             cv_messages := cv_messages s @
               [\<lparr>msg_id = Some now, role = ''user'', content = trim (cv_input s), sources = [],
                 created_at = Some now\<rparr>],
             cv_requests := cv_requests s @ [POST_chat (trim (cv_input s)) (cv_currentConvId s)]\<rparr>)"

definition cv_error_message :: "nat \<Rightarrow> string \<Rightarrow> message" where
  "cv_error_message now text =
     \<lparr>msg_id = Some (now + 1), role = ''assistant'', content = text, sources = [],
      created_at = Some now\<rparr>"

definition cv_send_failed :: "nat \<Rightarrow> chat_view \<Rightarrow> chat_view" where
  "cv_send_failed now s =
     s\<lparr>cv_console := cv_console s @ [''Send failed:''],
       cv_messages := cv_messages s @
         [cv_error_message now ''Failed to connect to server. Is the backend running?'']\<rparr>"

definition cv_adopt :: "nat option \<Rightarrow> chat_data \<Rightarrow> chat_view \<Rightarrow> chat_view" where
  "cv_adopt conv d s =
     (case chat_conversation_id d of
        None \<Rightarrow> s
      | Some i \<Rightarrow>
          if \<not> truthy conv \<and> i \<noteq> 0
          then s\<lparr>cv_currentConvId := Some i, cv_created := cv_created s @ [i]\<rparr>
          else s)"

definition cv_sendMessage_settle ::
  "nat option \<Rightarrow> nat \<Rightarrow> chat_data net \<Rightarrow> chat_view \<Rightarrow> chat_view" where
  "cv_sendMessage_settle conv now reply s =
     (case reply of
        NoConnection \<Rightarrow> cv_send_failed now s
      | Http status NotJson \<Rightarrow> cv_send_failed now s
      | Http status (Json d) \<Rightarrow>
          if chat_success d then
            (let s1 = cv_adopt conv d s in
             s1\<lparr>cv_messages := cv_messages s1 @
               [\<lparr>msg_id = (if truthy (chat_message_id d) then chat_message_id d else Some (now + 1)),
                 role = ''assistant'', content = chat_response d,
                 sources = (case chat_sources d of None \<Rightarrow> [] | Some l \<Rightarrow> l),
                 created_at = Some now\<rparr>]\<rparr>)
          else s\<lparr>cv_messages := cv_messages s @
                 [cv_error_message now ''An error occurred. Please try again.'']\<rparr>)
       \<lparr>cv_isSending := False\<rparr>"

text \<open>The view as it mounts with no conversation selected.\<close>

definition view0 :: chat_view where
  "view0 = cv_mount None"

text \<open>
  Unmounting. Neither effect of ChatView returns a cleanup and its fetches carry no
  signal, so no code of the view runs when it unmounts: every field, the requests that
  are out among them, is as it was.
\<close>

definition cv_unmount :: "chat_view \<Rightarrow> chat_view" where
  "cv_unmount s = s"

section \<open>The chat page (ChatPage.jsx)\<close>

record chat_page =
  cp_conversationId :: "nat option"
  cp_messages :: "message list"
  cp_input :: string
  cp_loading :: bool
  cp_streaming :: bool
  cp_currentConversationId :: "nat option"
  cp_loadingMessages :: bool
  cp_abortControllerRef :: "nat option"
  cp_aborted :: "bool list"
  cp_uploadedFiles :: nat
  cp_requests :: "http_request list"
  cp_changed :: "nat list"
  cp_console :: "string list"

text \<open>The welcome message of a new conversation, for \<open>n\<close> uploaded files.\<close>

definition welcome_message :: "nat \<Rightarrow> message" where
  "welcome_message n =
     \<lparr>msg_id = None, role = ''assistant'',
      content =
        (if n > 0
         then ''Hello! I can see you have '' @ decimal n @ '' document''
              @ (if n > 1 then ''s'' else []) @ '' uploaded. Ask me questions about ''
              @ (if n > 1 then ''them'' else ''it'') @ ''!''
         else ''Hello! I'' @ [CHR 0x27] @ ''m your document intelligence assistant. ''
              @ ''Upload documents first, then ask me questions about them!''),
      sources = [], created_at = None\<rparr>"

text \<open>loadConversation, up to its \<open>await\<close> and from it on, for the request sent with signal \<open>c\<close>.\<close>

definition cp_loadConversation_start :: "nat \<Rightarrow> chat_page \<Rightarrow> chat_page" where
  "cp_loadConversation_start convId s =
     s\<lparr>cp_loadingMessages := True, cp_requests := cp_requests s @ [GET_conversation convId]\<rparr>"

definition cp_load_error :: "chat_page \<Rightarrow> chat_page" where
  "cp_load_error s = s\<lparr>cp_console := cp_console s @ [''Error loading conversation:'']\<rparr>"

definition cp_loadConversation_settle ::
  "nat \<Rightarrow> nat \<Rightarrow> conversation_data net \<Rightarrow> chat_page \<Rightarrow> chat_page" where
  "cp_loadConversation_settle convId c reply s =
     (case axios (is_aborted (cp_aborted s) c) reply of
        Fulfilled (Json d) \<Rightarrow>
          if conv_success d then
            (case conv_messages d of
               Some (Some ms) \<Rightarrow>
                 s\<lparr>cp_messages := map (\<lambda>msg. msg\<lparr>created_at := None\<rparr>) ms,
                   cp_changed := cp_changed s @ [convId]\<rparr>
             | _ \<Rightarrow> cp_load_error s)
          else s
      | Fulfilled NotJson \<Rightarrow> s
      | Failed e \<Rightarrow> if not_cancelled e then cp_load_error s else s)
       \<lparr>cp_loadingMessages := False\<rparr>"

text \<open>
  The effect on \<open>currentConversationId\<close> and the number of uploaded files, and its
  cleanup, which runs before the effect runs again and when the page unmounts.
\<close>

definition cp_effect_cleanup :: "chat_page \<Rightarrow> chat_page" where
  "cp_effect_cleanup s = s\<lparr>cp_aborted := abort (cp_abortControllerRef s) (cp_aborted s)\<rparr>"

definition cp_effect :: "chat_page \<Rightarrow> chat_page" where
  "cp_effect s =
     (let flags = abort (cp_abortControllerRef s) (cp_aborted s);
          s1 = s\<lparr>cp_aborted := flags @ [False], cp_abortControllerRef := Some (length flags)\<rparr>
      in case cp_currentConversationId s of
           None \<Rightarrow> s1\<lparr>cp_messages := [welcome_message (cp_uploadedFiles s)]\<rparr>
         | Some i \<Rightarrow>
             if i \<noteq> 0 then cp_loadConversation_start i s1
             else s1\<lparr>cp_messages := [welcome_message (cp_uploadedFiles s)]\<rparr>)"

text \<open>
  \<open>setCurrentConversationId(v)\<close> followed by the effects it causes: none when the
  state keeps its value.
\<close>

definition cp_setCurrentConversationId :: "nat option \<Rightarrow> chat_page \<Rightarrow> chat_page" where
  "cp_setCurrentConversationId v s =
     (if v = cp_currentConversationId s then s
      else cp_effect (cp_effect_cleanup (s\<lparr>cp_currentConversationId := v\<rparr>)))"

text \<open>
  The effect on the property \<open>conversationId\<close>, run when the owner selects a
  conversation or none: \<open>setCurrentConversationId(conversationId || null)\<close>. The other
  effect also runs again when the number of uploaded files changes.
\<close>

definition cp_select :: "nat option \<Rightarrow> chat_page \<Rightarrow> chat_page" where
  "cp_select conversationId s =
     (if conversationId = cp_conversationId s then s
      else cp_setCurrentConversationId (if truthy conversationId then conversationId else None)
             (s\<lparr>cp_conversationId := conversationId\<rparr>))"

definition cp_files_changed :: "nat \<Rightarrow> chat_page \<Rightarrow> chat_page" where
  "cp_files_changed n s =
     (if n = cp_uploadedFiles s then s
      else cp_effect (cp_effect_cleanup (s\<lparr>cp_uploadedFiles := n\<rparr>)))"

text \<open>The page as it mounts, for a conversation or none and \<open>n\<close> uploaded files.\<close>

definition cp_mount :: "nat option \<Rightarrow> nat \<Rightarrow> chat_page" where
  "cp_mount conversationId n =
     cp_setCurrentConversationId (if truthy conversationId then conversationId else None)
       (cp_effect
          \<lparr>cp_conversationId = conversationId, cp_messages = [], cp_input = [],
           cp_loading = False, cp_streaming = False, cp_currentConversationId = conversationId,
           cp_loadingMessages = False, cp_abortControllerRef = None, cp_aborted = [],
           cp_uploadedFiles = n, cp_requests = [], cp_changed = [], cp_console = []\<rparr>)"

text \<open>
  The cleanups at unmount: that of the mount effect, then that of the effect above.
  As for the document manager, the record goes on showing what the handlers write
  afterwards.
\<close>

definition cp_unmount :: "chat_page \<Rightarrow> chat_page" where
  "cp_unmount s =
     cp_effect_cleanup
       (s\<lparr>cp_aborted := abort (cp_abortControllerRef s) (cp_aborted s),
          cp_loading := False, cp_streaming := False, cp_loadingMessages := False\<rparr>)"

text \<open>handleSend: the text of the assistant message for an error that was not a cancellation.\<close>

definition response_detail :: "chat_data js_error \<Rightarrow> string option" where
  "response_detail e =
     (case err_response e of
        Some (status, Json d) \<Rightarrow> chat_detail d
      | _ \<Rightarrow> None)"

definition errorMessage :: "chat_data js_error \<Rightarrow> string" where
  "errorMessage e =
     (if err_code e = Some ''ECONNREFUSED''
         \<or> (case err_message e of None \<Rightarrow> False | Some m \<Rightarrow> js_includes m ''Network Error'')
      then ''Cannot connect to backend server. Make sure the backend is running on port 8001.''
      else if map_option fst (err_response e) = Some 503
      then ''Cannot connect to n8n. Make sure n8n is running.''
      else if response_detail e \<noteq> None \<and> response_detail e \<noteq> Some []
      then ''Error: '' @ the (response_detail e)
      else if err_message e \<noteq> None \<and> err_message e \<noteq> Some []
      then ''Error: '' @ the (err_message e)
      else ''Sorry, I encountered an error. Please try again.'')"

text \<open>\<open>new Error('Failed to get response')\<close>, thrown when the reply does not say \<open>success\<close>.\<close>

definition FailedToGetResponse :: "chat_data js_error" where
  "FailedToGetResponse =
     \<lparr>err_name = ''Error'', err_code = None, err_message = Some ''Failed to get response'',
      err_response = None\<rparr>"

definition cp_assistant :: "string \<Rightarrow> source list \<Rightarrow> message" where
  "cp_assistant text srcs =
     \<lparr>msg_id = None, role = ''assistant'', content = text, sources = srcs, created_at = None\<rparr>"

definition cp_send_error :: "chat_data js_error \<Rightarrow> chat_page \<Rightarrow> chat_page" where
  "cp_send_error e s =
     (if \<not> not_cancelled e then s
      else s\<lparr>cp_messages := cp_messages s @ [cp_assistant (errorMessage e) []]\<rparr>)"

text \<open>handleSend up to its \<open>await\<close>; the POST carries the signal of the controller just created.\<close>

definition handleSend_start :: "chat_page \<Rightarrow> chat_page" where
  "handleSend_start s =
     (if trim (cp_input s) = [] \<or> cp_loading s \<or> cp_streaming s then s
      else
        let flags = abort (cp_abortControllerRef s) (cp_aborted s) in
        s\<lparr>cp_input := [],
          cp_messages := cp_messages s @
            [\<lparr>msg_id = None, role = ''user'', content = trim (cp_input s), sources = [],
              created_at = None\<rparr>],
          cp_loading := True,
          cp_aborted := flags @ [False], cp_abortControllerRef := Some (length flags),
          cp_requests := cp_requests s @
            [POST_chat (trim (cp_input s))
               (if truthy (cp_currentConversationId s) then cp_currentConversationId s else None)]\<rparr>)"

text \<open>
  handleSend from its \<open>await\<close> on, for the POST sent with signal \<open>c\<close>; \<open>conv\<close> is
  \<open>currentConversationId\<close> as the handler closed over it. The state changes first;
  the effect on \<open>currentConversationId\<close> runs afterwards when that changed.
\<close>

definition cp_adopt :: "nat option \<Rightarrow> chat_data \<Rightarrow> chat_page \<Rightarrow> chat_page" where
  "cp_adopt conv d s =
     (case chat_conversation_id d of
        None \<Rightarrow> s
      | Some i \<Rightarrow>
          if \<not> truthy conv \<and> i \<noteq> 0
          then s\<lparr>cp_currentConversationId := Some i, cp_changed := cp_changed s @ [i]\<rparr>
          else s)"

definition handleSend_body :: "nat option \<Rightarrow> nat \<Rightarrow> chat_data net \<Rightarrow> chat_page \<Rightarrow> chat_page" where
  "handleSend_body conv c reply s =
     (case axios (is_aborted (cp_aborted s) c) reply of
        Fulfilled (Json d) \<Rightarrow>
          if chat_success d then
            (let s1 = cp_adopt conv d s in
             s1\<lparr>cp_messages := cp_messages s1 @
               [cp_assistant (chat_response d)
                  (map (\<lambda>src. src\<lparr>src_url := None\<rparr>)
                     (case chat_sources d of None \<Rightarrow> [] | Some l \<Rightarrow> l))]\<rparr>)
          else cp_send_error FailedToGetResponse s
      | Fulfilled NotJson \<Rightarrow> cp_send_error FailedToGetResponse s
      | Failed e \<Rightarrow> cp_send_error e s)
       \<lparr>cp_loading := False\<rparr>"

definition handleSend_settle :: "nat option \<Rightarrow> nat \<Rightarrow> chat_data net \<Rightarrow> chat_page \<Rightarrow> chat_page" where
  "handleSend_settle conv c reply s =
     (let s1 = handleSend_body conv c reply s in
      if cp_currentConversationId s1 = cp_currentConversationId s then s1
      else cp_effect (cp_effect_cleanup s1))"

text \<open>The page mounted with no conversation selected and no file uploaded.\<close>

definition chat0 :: chat_page where
  "chat0 = cp_mount None 0"

section \<open>The owners of the chat components and the conversation sidebar\<close>

text \<open>
  What the owner does when the chat component reports a conversation:
  App.onConversationCreated for ChatView (\<open>setActiveConversationId(id); fetchData()\<close>)
  and App.handleConversationChange for ChatPage
  (\<open>setCurrentConversationId(id); fetchConversations()\<close>). The sidebar's requests for
  a conversation carry the identifier of the list entry they are issued for.
\<close>

record app =
  app_conversationId :: "nat option"
  app_requests :: "http_request list"

definition onConversationCreated :: "nat \<Rightarrow> app \<Rightarrow> app" where
  "onConversationCreated i a =
     a\<lparr>app_conversationId := Some i,
       app_requests := app_requests a @ [GET_documents, GET_conversations]\<rparr>"

definition handleConversationChange :: "nat \<Rightarrow> app \<Rightarrow> app" where
  "handleConversationChange i a =
     a\<lparr>app_conversationId := Some i, app_requests := app_requests a @ [GET_conversations]\<rparr>"

definition sidebar_handleDelete :: "nat \<Rightarrow> bool \<Rightarrow> app \<Rightarrow> app" where
  "sidebar_handleDelete conversationId confirmed a =
     (if \<not> confirmed then a
      else a\<lparr>app_requests := app_requests a @ [DELETE_conversation conversationId]\<rparr>)"

definition sidebar_handleEditSave :: "nat \<Rightarrow> string \<Rightarrow> app \<Rightarrow> app" where
  "sidebar_handleEditSave conversationId editTitle a =
     a\<lparr>app_requests := app_requests a @ [PATCH_conversation_title conversationId editTitle]\<rparr>"

section \<open>Choosing files to upload (UploadPage.jsx, UploadView.jsx)\<close>

text \<open>A browser file: its name and the MIME type the browser gives it (\<open>File.type\<close>).\<close>

record browser_file =
  file_name :: string
  file_mime :: string

definition allowedTypes :: "string list" where
  "allowedTypes = [''application/pdf'', ''text/csv'', ''application/json'', ''text/plain'']"

definition allowedExtensions :: "string list" where
  "allowedExtensions = [''.pdf'', ''.csv'', ''.json'', ''.txt'']"

text \<open>
  \<open>'.' + file.name.split('.').pop().toLowerCase()\<close>: the part of the name after its
  last dot (the whole name when it has none), in lower case, behind a dot.
\<close>

definition extension :: "string \<Rightarrow> string" where
  "extension name = ''.'' @ toLowerCase (rev (takeWhile (\<lambda>c. c \<noteq> CHR ''.'') (rev name)))"

definition validateFile :: "browser_file \<Rightarrow> bool" where
  "validateFile f =
     (file_mime f \<in> set allowedTypes \<or> extension (file_name f) \<in> set allowedExtensions)"

text \<open>
  UploadPage: the queue \<open>files\<close>, the message shown (its type and text), and the form
  data of every \<open>POST /api/upload\<close> issued. \<open>newId\<close> stands for
  \<open>Date.now() + Math.random()\<close>, read once for each file queued.
\<close>

record file_item =
  item_file :: browser_file
  item_id :: nat
  item_status :: string
  item_progress :: nat

record upload_page =
  up_files :: "file_item list"
  up_uploading :: bool
  up_message :: "string \<times> string"
  up_uploads :: "browser_file list list"

definition rejected_text :: "nat \<Rightarrow> string" where
  "rejected_text n =
     decimal n @ '' file(s) were rejected. Only PDF, CSV, JSON, and TXT files are allowed.''"

definition handleFilesSelect :: "browser_file list \<Rightarrow> (nat \<Rightarrow> nat) \<Rightarrow> upload_page \<Rightarrow> upload_page" where
  "handleFilesSelect fileArray newId s =
     (let validFiles = filter validateFile fileArray;
          invalidFiles = filter (\<lambda>f. \<not> validateFile f) fileArray;
          s1 = (if invalidFiles \<noteq> []
                then s\<lparr>up_message := (''error'', rejected_text (length invalidFiles))\<rparr>
                else s)
      in if validFiles \<noteq> []
         then s1\<lparr>up_files := up_files s1 @
                   map (\<lambda>(i, f). \<lparr>item_file = f, item_id = newId i, item_status = ''pending'',
                                   item_progress = 0\<rparr>)
                     (zip [0 ..< length validFiles] validFiles),
                 up_message := ([], [])\<rparr>
         else s1)"

text \<open>handleUpload, up to its \<open>await\<close>.\<close>

definition handleUpload_start :: "upload_page \<Rightarrow> upload_page" where
  "handleUpload_start s =
     (if up_files s = []
      then s\<lparr>up_message := (''error'', ''Please select at least one file first'')\<rparr>
      else s\<lparr>up_uploading := True, up_message := ([], []),
             up_files := map (\<lambda>f. f\<lparr>item_status := ''uploading'', item_progress := 0\<rparr>) (up_files s),
             up_uploads := up_uploads s @ [map item_file (up_files s)]\<rparr>)"

text \<open>UploadView: the queue, the result shown (its type, title and message) and the uploads issued.\<close>

definition ALLOWED :: "string list" where
  "ALLOWED = [''.pdf'', ''.csv'', ''.json'', ''.txt'']"

definition isValid :: "browser_file \<Rightarrow> bool" where
  "isValid f = (extension (file_name f) \<in> set ALLOWED)"

record upload_view =
  uv_files :: "browser_file list"
  uv_uploading :: bool
  uv_progress :: nat
  uv_result :: "(string \<times> string \<times> string) option"
  uv_uploads :: "browser_file list list"

definition addFiles :: "browser_file list \<Rightarrow> upload_view \<Rightarrow> upload_view" where
  "addFiles newFiles s =
     s\<lparr>uv_files := uv_files s @ filter isValid newFiles, uv_result := None\<rparr>"


text \<open>Files and empty upload components, for the examples.\<close>

definition report_exe :: browser_file where
  "report_exe = \<lparr>file_name = ''report.exe'', file_mime = ''application/x-msdownload''\<rparr>"


definition sheet_csv :: browser_file where
  "sheet_csv = \<lparr>file_name = ''sheet.csv'', file_mime = ''application/vnd.ms-excel''\<rparr>"

definition malware_exe :: browser_file where
  "malware_exe = \<lparr>file_name = ''malware.exe'', file_mime = ''text/plain''\<rparr>"

definition upload0 :: upload_page where
  "upload0 = \<lparr>up_files = [], up_uploading = False, up_message = ([], []), up_uploads = []\<rparr>"

definition uview0 :: upload_view where
  "uview0 =
     \<lparr>uv_files = [], uv_uploading = False, uv_progress = 0, uv_result = None, uv_uploads = []\<rparr>"

section \<open>The chat page and its requests in flight\<close>

text \<open>
  The page together with every conversation load and every send it has issued, each
  with the signal it carries, and a record of every reply of a load that was written
  to the message list: the conversation it was requested for and the conversation
  selected at that moment. A reply is written exactly when the owner is told
  (\<open>onConversationChange\<close> follows \<open>setMessages\<close>). The events: the owner selects a
  conversation or none, the number of uploaded files changes, the user types, the user
  sends, a load settles, a send settles; a request settles only if it was issued.
\<close>

record chat_world =
  cw_page :: chat_page
  cw_loads :: "(nat \<times> nat) list"
  cw_sends :: "(nat option \<times> nat) list"
  cw_applied :: "(nat \<times> nat option) list"

datatype chat_event =
    Select "nat option"
  | FilesChanged nat
  | Type string
  | Send
  | LoadSettles nat nat "conversation_data net"
  | SendSettles "nat option" nat "chat_data net"

text \<open>
  \<open>issued old new\<close> notes the requests an operation has sent, going from the page \<open>old\<close>
  to the page \<open>new\<close>: a load with its conversation, a send with the conversation the
  handler closed over, each with the signal of the controller current after the
  operation, under which it was sent.
\<close>

definition issued :: "chat_page \<Rightarrow> chat_page \<Rightarrow> chat_world \<Rightarrow> chat_world" where
  "issued old new w =
     (let rs = drop (length (cp_requests old)) (cp_requests new);
          c = (case cp_abortControllerRef new of None \<Rightarrow> 0 | Some k \<Rightarrow> k)
      in w\<lparr>cw_page := new,
           cw_loads := cw_loads w @ concat (map (\<lambda>r. case r of GET_conversation i \<Rightarrow> [(i, c)] | _ \<Rightarrow> []) rs),
           cw_sends := cw_sends w @
             concat (map (\<lambda>r. case r of POST_chat t v \<Rightarrow> [(cp_currentConversationId old, c)] | _ \<Rightarrow> []) rs)\<rparr>)"

fun cw_step :: "chat_event \<Rightarrow> chat_world \<Rightarrow> chat_world" where
  "cw_step (Select c) w = issued (cw_page w) (cp_select c (cw_page w)) w"
| "cw_step (FilesChanged n) w = issued (cw_page w) (cp_files_changed n (cw_page w)) w"
| "cw_step (Type t) w = w\<lparr>cw_page := (cw_page w)\<lparr>cp_input := t\<rparr>\<rparr>"
| "cw_step Send w = issued (cw_page w) (handleSend_start (cw_page w)) w"
| "cw_step (LoadSettles i c reply) w =
     (if (i, c) \<in> set (cw_loads w) then
        let p = cw_page w; p' = cp_loadConversation_settle i c reply p in
        w\<lparr>cw_page := p',
          cw_applied := cw_applied w @
            (if cp_changed p' = cp_changed p then [] else [(i, cp_currentConversationId p)])\<rparr>
      else w)"
| "cw_step (SendSettles v c reply) w =
     (if (v, c) \<in> set (cw_sends w)
      then issued (cw_page w) (handleSend_settle v c reply (cw_page w)) w
      else w)"

fun cw_run :: "chat_event list \<Rightarrow> chat_world \<Rightarrow> chat_world" where
  "cw_run [] w = w"
| "cw_run (e # es) w = cw_run es (cw_step e w)"

definition cw_mount :: "nat option \<Rightarrow> nat \<Rightarrow> chat_world" where
  "cw_mount conversationId n =
     (let p = cp_mount conversationId n in
      \<lparr>cw_page = p,
       cw_loads = (case cp_currentConversationId p of
                     Some i \<Rightarrow> if i \<noteq> 0 then [(i, length (cp_aborted p) - 1)] else []
                   | None \<Rightarrow> []),
       cw_sends = [], cw_applied = []\<rparr>)"

text \<open>
  A signal is live while its controller has not been aborted. The discipline of the
  page: a request whose signal is live was sent under the current controller, a load
  among them for the conversation now selected; and every reply written so far was
  for the conversation selected when it was written.
\<close>

definition live :: "chat_page \<Rightarrow> nat \<Rightarrow> bool" where
  "live p c = (c < length (cp_aborted p) \<and> \<not> cp_aborted p ! c)"

definition disciplined :: "chat_world \<Rightarrow> bool" where
  "disciplined w =
     ((\<forall>(i, c) \<in> set (cw_loads w). c < length (cp_aborted (cw_page w))
          \<and> (live (cw_page w) c \<longrightarrow>
                cp_abortControllerRef (cw_page w) = Some c
                \<and> cp_currentConversationId (cw_page w) = Some i))
      \<and> (\<forall>(v, c) \<in> set (cw_sends w). c < length (cp_aborted (cw_page w))
          \<and> (live (cw_page w) c \<longrightarrow> cp_abortControllerRef (cw_page w) = Some c))
      \<and> (\<forall>r. cp_abortControllerRef (cw_page w) = Some r \<longrightarrow> r < length (cp_aborted (cw_page w)))
      \<and> (\<forall>(i, cur) \<in> set (cw_applied w). cur = Some i))"

section \<open>Replies and texts for the examples\<close>

definition msg_one :: message where
  "msg_one =
     \<lparr>msg_id = Some 1, role = ''user'', content = ''first conversation'', sources = [],
      created_at = Some 100\<rparr>"

definition msg_two :: message where
  "msg_two =
     \<lparr>msg_id = Some 2, role = ''user'', content = ''second conversation'', sources = [],
      created_at = Some 200\<rparr>"

definition conversation_reply :: "message \<Rightarrow> conversation_data net" where
  "conversation_reply m =
     Http 200 (Json \<lparr>conv_success = True, conv_messages = Some (Some [m])\<rparr>)"

definition docs_reply :: "documents_data net" where
  "docs_reply = Http 200 (Json \<lparr>docs_success = True, docs_documents = Some [doc_report]\<rparr>)"

definition reply_created :: "nat \<Rightarrow> chat_data" where
  "reply_created i =
     \<lparr>chat_success = True, chat_response = ''Hello'', chat_conversation_id = Some i,
      chat_message_id = Some 11, chat_sources = None, chat_detail = None\<rparr>"

text \<open>The text ChatPage shows when the backend cannot be reached.\<close>

definition cannot_connect :: string where
  "cannot_connect =
     ''Cannot connect to backend server. Make sure the backend is running on port 8001.''"


definition app0 :: app where
  "app0 = \<lparr>app_conversationId = None, app_requests = []\<rparr>"

text \<open>
  A round of the chat: the user types \<open>t\<close> and sends, and the reply arrives before
  anything else happens. \<open>sent_texts\<close> are the texts that go out, trimmed.
\<close>

definition cv_round :: "string \<times> nat \<times> nat \<times> chat_data net \<Rightarrow> chat_view \<Rightarrow> chat_view" where
  "cv_round r s =
     (case r of (t, now, now', reply) \<Rightarrow>
        if trim t = [] \<or> cv_isSending s then s\<lparr>cv_input := t\<rparr>
        else cv_sendMessage_settle (cv_currentConvId s) now' reply
               (cv_sendMessage_start now (s\<lparr>cv_input := t\<rparr>)))"

definition cp_round :: "string \<times> chat_data net \<Rightarrow> chat_page \<Rightarrow> chat_page" where
  "cp_round r s =
     (case r of (t, reply) \<Rightarrow>
        if trim t = [] \<or> cp_loading s \<or> cp_streaming s then s\<lparr>cp_input := t\<rparr>
        else let s1 = handleSend_start (s\<lparr>cp_input := t\<rparr>) in
             handleSend_settle (cp_currentConversationId s) (the (cp_abortControllerRef s1))
               reply s1)"

definition sent_texts :: "string list \<Rightarrow> string list" where
  "sent_texts ts = map trim (filter (\<lambda>t. trim t \<noteq> []) ts)"

section \<open>Strings: the search is the sublist relation\<close>

lemma js_includes_sublist: "js_includes s q = sublist q s"
  by (induction s) (auto simp: sublist_Cons_right)

lemma opt_includes_contains_ci:
  "opt_includes f (toLowerCase q) = (case f of None \<Rightarrow> False | Some t \<Rightarrow> contains_ci t q)"
  by (cases f) (simp_all add: contains_ci_def js_includes_sublist)

lemma filtered_matches:
  "trim q \<noteq> [] \<Longrightarrow> filtered ds q = filter (matches q) ds"
  by (auto simp: filtered_def matches_def opt_includes_contains_ci contains_ci_def
        js_includes_sublist intro!: filter_cong)

section \<open>The documents filter\<close>

lemma trim_blank: "trim ''   '' = []"
  by (simp add: trim_def is_whitespace_def js_whitespace_def)

text \<open>
  Claim C9, as the code has it. The filter is a function of the cache and the query
  alone and returns a new list; the cache is its argument and is not written. For a
  query that is empty or only whitespace the projection is the whole cache; for every
  other query it is exactly the cached documents, in order, whose filename, type or
  summary contains the query as it was typed (not trimmed), case ignored. So a query
  that no document matches gives the empty list, and the empty query gives the cache
  back.
\<close>

theorem filtered_projection:
  "(trim q = [] \<longrightarrow> filtered ds q = ds)
   \<and> (trim q \<noteq> [] \<longrightarrow> filtered ds q = filter (matches q) ds)
   \<and> (trim q \<noteq> [] \<and> (\<forall>d\<in>set ds. \<not> matches q d) \<longrightarrow> filtered ds q = [])
   \<and> filtered ds [] = ds"
proof -
  have blank: "trim q = [] \<Longrightarrow> filtered ds q = ds"
    by (simp add: filtered_def)
  have none: "(\<forall>d\<in>set ds. \<not> matches q d) \<Longrightarrow> filter (matches q) ds = []"
    by (simp add: filter_empty_conv)
  have empty: "filtered ds [] = ds"
    by (simp add: filtered_def trim_def)
  show ?thesis
    using blank none empty by (simp add: filtered_matches)
qed

theorem filtered_projection_witness:
  "trim ''PDF'' \<noteq> []
   \<and> filtered [doc_report, doc_notes] ''PDF'' = filter (matches ''PDF'') [doc_report, doc_notes]
   \<and> filtered [doc_report, doc_notes] ''PDF'' = [doc_report]
   \<and> trim ''zzz'' \<noteq> [] \<and> \<not> matches ''zzz'' doc_report \<and> \<not> matches ''zzz'' doc_notes
   \<and> filtered [doc_report, doc_notes] ''zzz'' = []
   \<and> trim ''  '' = [] \<and> filtered [doc_report, doc_notes] ''  '' = [doc_report, doc_notes]"
proof -
  have t1: "trim ''PDF'' \<noteq> []" and t2: "trim ''zzz'' \<noteq> []" and t3: "trim ''  '' = []"
    by (simp_all add: trim_def is_whitespace_def js_whitespace_def)
  have m: "\<not> matches ''zzz'' doc_report" "\<not> matches ''zzz'' doc_notes"
    by (simp_all add: matches_def contains_ci_def js_includes_sublist [symmetric] doc_report_def
        doc_notes_def toLowerCase_def lower_char_def lower_table_def)
  have v: "filtered [doc_report, doc_notes] ''PDF'' = [doc_report]"
    by (simp add: filtered_def Let_def t1 doc_report_def doc_notes_def toLowerCase_def
        lower_char_def lower_table_def)
  show ?thesis
    using filtered_projection [of "''PDF''" "[doc_report, doc_notes]"]
      filtered_projection [of "''zzz''" "[doc_report, doc_notes]"]
      filtered_projection [of "''  ''" "[doc_report, doc_notes]"] t1 t2 t3 m v
    by simp
qed

text \<open>
  The claim as it is written fails on a query of three spaces: the view shows the
  document, and no field of the document contains three spaces.
\<close>

theorem filtered_blank_query_counterexample:
  "filtered [doc_report] ''   '' \<noteq> filter (matches ''   '') [doc_report]"
proof -
  have "filtered [doc_report] ''   '' = [doc_report]"
    by (simp add: filtered_def trim_blank)
  moreover have "\<not> matches ''   '' doc_report"
    by (simp add: matches_def contains_ci_def js_includes_sublist [symmetric] doc_report_def
        toLowerCase_def lower_char_def lower_table_def)
  ultimately show ?thesis by simp
qed

section \<open>The guards of the documents view\<close>

lemma idle_guarded: "idle s \<Longrightarrow> guarded s"
  by (simp add: idle_def guarded_def)

lemma handleDelete_guarded: "guarded s \<Longrightarrow> i \<noteq> 0 \<Longrightarrow> guarded (handleDelete i s)"
  by (auto simp: guarded_def handleDelete_def deleteDocument_start_def)

lemma handleDelete_settle_guarded:
  "guarded s \<Longrightarrow> i \<in> set (delete_pending s) \<Longrightarrow> guarded (handleDelete_settle i reply s)"
  by (auto simp: guarded_def handleDelete_settle_def deleteDocument_settle_def split: net.splits)

lemma handleGenerateSummary_guarded:
  "guarded s \<Longrightarrow> i \<noteq> 0 \<Longrightarrow> guarded (handleGenerateSummary i s)"
  by (auto simp: guarded_def handleGenerateSummary_def)

lemma handleGenerateSummary_settle_guarded:
  "guarded s \<Longrightarrow> i \<in> set (summary_pending s) \<Longrightarrow>
   guarded (handleGenerateSummary_settle i reply s)"
  by (auto simp: guarded_def handleGenerateSummary_settle_def split: net.splits)

lemma timer_guarded: "guarded s \<Longrightarrow> guarded (step TimerFires s)"
  by (auto simp: guarded_def timer_callback_def fetchData_start_def length_Suc_conv
      split: list.splits)

lemma step_guarded: "guarded s \<Longrightarrow> proper_ids e \<Longrightarrow> guarded (step e s)"
proof (cases e)
  case (TypeSearch q)
  assume "guarded s"
  then show ?thesis using TypeSearch by (simp add: guarded_def)
qed (simp_all add: handleDelete_guarded handleDelete_settle_guarded handleGenerateSummary_guarded
      handleGenerateSummary_settle_guarded timer_guarded del: step.simps(5))

lemma run_guarded: "guarded s \<Longrightarrow> \<forall>e\<in>set es. proper_ids e \<Longrightarrow> guarded (run es s)"
  by (induction es arbitrary: s) (simp_all add: step_guarded)

lemma guarded_delete_noop:
  "guarded s \<Longrightarrow> delete_pending s \<noteq> [] \<Longrightarrow> handleDelete j s = s"
  by (auto simp: guarded_def handleDelete_def)

lemma guarded_generate_noop:
  "guarded s \<Longrightarrow> summary_pending s \<noteq> [] \<or> timers s \<noteq> [] \<Longrightarrow> handleGenerateSummary j s = s"
  by (auto simp: guarded_def handleGenerateSummary_def)

lemma guarded_length:
  "guarded s \<Longrightarrow> length (delete_pending s) \<le> 1 \<and> length (summary_pending s) \<le> 1"
  by (auto simp: guarded_def)

lemma repeat_clicks_ignored:
  "truthy (generatingId s) \<Longrightarrow> run (map ClickGenerate js) s = s"
  by (induction js) (simp_all add: handleGenerateSummary_def)

text \<open>
  Claim C10. From a page with nothing outstanding, as the view mounts on it, after any
  sequence of clicks, settlements and timer firings on documents whose identifiers are
  not 0, for as long as the view stays mounted: at most one
  DELETE and at most one generate-summary request are outstanding; while a DELETE is
  outstanding \<open>handleDelete\<close> changes nothing and issues nothing for every identifier,
  the same or another; while a generate-summary request or its timer is outstanding
  \<open>handleGenerateSummary\<close> changes nothing and issues nothing for every identifier.
\<close>

theorem pending_guard_global:
  assumes "idle s0" and "\<forall>e\<in>set es. proper_ids e"
  shows "length (delete_pending (run es s0)) \<le> 1
       \<and> length (summary_pending (run es s0)) \<le> 1
       \<and> (delete_pending (run es s0) \<noteq> [] \<longrightarrow> (\<forall>j. handleDelete j (run es s0) = run es s0))
       \<and> (summary_pending (run es s0) \<noteq> [] \<or> timers (run es s0) \<noteq> [] \<longrightarrow>
            (\<forall>j. handleGenerateSummary j (run es s0) = run es s0))"
proof -
  have g: "guarded (run es s0)"
    using assms by (simp add: idle_guarded run_guarded)
  show ?thesis
    using guarded_length [OF g] guarded_delete_noop [OF g] guarded_generate_noop [OF g]
    by simp
qed

theorem pending_guard_global_witness:
  "idle page0
   \<and> delete_pending (run [ClickDelete 5, ClickDelete 7, ClickGenerate 7, ClickGenerate 5] page0)
       = [5]
   \<and> summary_pending (run [ClickDelete 5, ClickDelete 7, ClickGenerate 7, ClickGenerate 5] page0)
       = [7]
   \<and> (\<forall>j. handleDelete j
            (run [ClickDelete 5, ClickDelete 7, ClickGenerate 7, ClickGenerate 5] page0)
          = run [ClickDelete 5, ClickDelete 7, ClickGenerate 7, ClickGenerate 5] page0)
   \<and> (\<forall>j. handleGenerateSummary j
            (run [ClickDelete 5, ClickDelete 7, ClickGenerate 7, ClickGenerate 5] page0)
          = run [ClickDelete 5, ClickDelete 7, ClickGenerate 7, ClickGenerate 5] page0)"
proof -
  have i: "idle page0"
    by (simp add: idle_def page0_def)
  have p: "\<forall>e\<in>set [ClickDelete 5, ClickDelete 7, ClickGenerate 7, ClickGenerate 5]. proper_ids e"
    by simp
  have d: "delete_pending
             (run [ClickDelete 5, ClickDelete 7, ClickGenerate 7, ClickGenerate 5] page0) = [5]"
    and g: "summary_pending
             (run [ClickDelete 5, ClickDelete 7, ClickGenerate 7, ClickGenerate 5] page0) = [7]"
    by (simp_all add: page0_def handleDelete_def handleGenerateSummary_def
        deleteDocument_start_def)
  show ?thesis
    using pending_guard_global [OF i p] i d g by simp
qed

text \<open>
  Claim C8, as the code has it: the re-fetch follows a trigger whose POST resolves. Let
  no generate-summary trigger be outstanding in the mounted view and let the document's
  identifier not be 0. After \<open>handleGenerateSummary i\<close>, however often it is called again
  (for this or any identifier) before and after the POST resolves, one POST has been
  issued. When the POST resolves, with any status, one timer of 1000 ms is set and
  nothing more is requested; when the timer fires the view asks once for the full list
  (\<open>onRefresh\<close>, which is App.fetchData), releases the guard and leaves no timer behind,
  so nothing is fetched again. When the POST is rejected instead, the guard is released
  at once and nothing is fetched.
\<close>

theorem single_deferred_refetch:
  assumes "\<not> truthy (generatingId s)" and "summary_pending s = []" and "timers s = []"
    and "i \<noteq> 0"
  shows "let s1 = run (ClickGenerate i # map ClickGenerate js) s;
             s2 = run (SummarySettles i (Http status b) # map ClickGenerate ks) s1;
             s3 = step TimerFires s2
         in requests s1 = requests s @ [POST_generate_summary i]
          \<and> requests s2 = requests s1 \<and> timers s2 = [1000]
          \<and> requests s3 = requests s2 @ [GET_documents, GET_conversations]
          \<and> timers s3 = [] \<and> summary_pending s3 = [] \<and> generatingId s3 = None
          \<and> step TimerFires s3 = s3
          \<and> requests (step (SummarySettles i NoConnection) s1) = requests s1
          \<and> timers (step (SummarySettles i NoConnection) s1) = []
          \<and> generatingId (step (SummarySettles i NoConnection) s1) = None"
proof -
  define t1 where "t1 = handleGenerateSummary i s"
  have t1: "t1 = s\<lparr>generatingId := Some i, requests := requests s @ [POST_generate_summary i],
                   summary_pending := [i]\<rparr>"
    using assms by (simp add: t1_def handleGenerateSummary_def)
  have g1: "truthy (generatingId t1)"
    using assms by (simp add: t1)
  have s1: "run (ClickGenerate i # map ClickGenerate js) s = t1"
    by (simp only: run.simps step.simps t1_def [symmetric] repeat_clicks_ignored [OF g1])
  define t2 where "t2 = step (SummarySettles i (Http status b)) t1"
  have t2: "t2 = t1\<lparr>timers := [1000], summary_pending := []\<rparr>"
    using assms by (simp add: t2_def t1 handleGenerateSummary_settle_def)
  have g2: "truthy (generatingId t2)"
    using assms by (simp add: t2 t1)
  have s2: "run (SummarySettles i (Http status b) # map ClickGenerate ks) t1 = t2"
    by (simp only: run.simps t2_def [symmetric] repeat_clicks_ignored [OF g2])
  show ?thesis
    unfolding Let_def s1 s2
    using assms
    by (simp add: t2 t1 timer_callback_def fetchData_start_def handleGenerateSummary_settle_def)
qed

theorem single_deferred_refetch_witness:
  "\<not> truthy (generatingId page0) \<and> summary_pending page0 = [] \<and> timers page0 = []
   \<and> (7::nat) \<noteq> 0
   \<and> (let s1 = run (ClickGenerate 7 # map ClickGenerate [7, 7]) page0;
           s2 = run (SummarySettles 7 (Http 202 NotJson) # map ClickGenerate [7]) s1;
           s3 = step TimerFires s2
       in requests s1 = requests page0 @ [POST_generate_summary 7]
        \<and> requests s2 = requests s1 \<and> timers s2 = [1000]
        \<and> requests s3 = requests s2 @ [GET_documents, GET_conversations]
        \<and> timers s3 = [] \<and> summary_pending s3 = [] \<and> generatingId s3 = None
        \<and> step TimerFires s3 = s3
        \<and> requests (step (SummarySettles 7 NoConnection) s1) = requests s1
        \<and> timers (step (SummarySettles 7 NoConnection) s1) = []
        \<and> generatingId (step (SummarySettles 7 NoConnection) s1) = None)"
proof -
  have h: "\<not> truthy (generatingId page0)" "summary_pending page0 = []" "timers page0 = []"
    "(7::nat) \<noteq> 0"
    by (simp_all add: page0_def)
  from single_deferred_refetch [OF h, of "[7, 7]" 202 NotJson "[7]"] h
  show ?thesis by blast
qed

text \<open>
  The claim as it is written fails. The trigger for document 7 is issued and its POST is
  rejected, the server being out of reach. The \<open>catch\<close> of handleGenerateSummary logs
  the error and releases the guard; no timer is set, and the list is not fetched again,
  then or when time passes: the POST stays the one request of the run.
\<close>

theorem rejected_trigger_no_refetch_counterexample:
  "requests (run [ClickGenerate 7] page0) = [POST_generate_summary 7]
   \<and> timers (run [ClickGenerate 7, SummarySettles 7 NoConnection] page0) = []
   \<and> generatingId (run [ClickGenerate 7, SummarySettles 7 NoConnection] page0) = None
   \<and> requests (run [ClickGenerate 7, SummarySettles 7 NoConnection, TimerFires] page0)
       = [POST_generate_summary 7]"
  by (simp add: page0_def handleGenerateSummary_def handleGenerateSummary_settle_def)

section \<open>Abort controllers\<close>

lemma fresh_signal_live: "\<not> is_aborted (flags @ [False]) (length flags)"
  by (simp add: is_aborted_def)

lemma abort_current: "c < length flags \<Longrightarrow> is_aborted (abort (Some c) flags) c"
  by (simp add: abort_def is_aborted_def)

lemma abort_twice: "abort r (abort r flags) = abort r flags"
  by (cases r) (simp_all add: abort_def)

lemma axios_aborted: "axios True reply = Failed CanceledError"
  by (simp add: axios_def)

lemma cancelled_ignored: "\<not> not_cancelled CanceledError"
  by (simp add: not_cancelled_def CanceledError_def)

section \<open>Selecting conversations\<close>

text \<open>
  Claim C1 at a trace of ChatView. The view mounts with no conversation; conversation 1
  is selected, then conversation 2, so two requests are out. The reply for conversation
  2 arrives first and the reply for conversation 1 after it. ChatView.loadConversation
  has no signal and compares no identifier: the late reply of the superseded selection
  is written to the message list while conversation 2 is the selected one.
\<close>

theorem cv_stale_response_applied:
  "cv_requests (cv_select (Some 2) (cv_select (Some 1) view0))
     = [GET_conversation 1, GET_conversation 2]
   \<and> cv_currentConvId
       (cv_loadConversation_settle (conversation_reply msg_one)
         (cv_loadConversation_settle (conversation_reply msg_two)
           (cv_select (Some 2) (cv_select (Some 1) view0)))) = Some 2
   \<and> cv_messages
       (cv_loadConversation_settle (conversation_reply msg_one)
         (cv_loadConversation_settle (conversation_reply msg_two)
           (cv_select (Some 2) (cv_select (Some 1) view0)))) = [msg_one]"
  by (simp add: cv_select_def cv_loadConversation_start_def cv_loadConversation_settle_def
      conversation_reply_def view0_def cv_mount_def cv_effect_def)

text \<open>
  ChatPage does what the claim says. Selecting another conversation aborts the
  controller whose signal the request before it carries; a request whose signal is
  aborted leaves the message list, the owner and the selection alone whatever reply
  arrives. On the trace above the page ends with the messages of conversation 2. The
  lemmas after these three carry the argument to every sequence of events.
\<close>

lemma cp_select_aborts:
  assumes "cp_abortControllerRef p = Some c" and "c < length (cp_aborted p)"
    and "conversationId \<noteq> cp_conversationId p"
    and "(if truthy conversationId then conversationId else None) \<noteq> cp_currentConversationId p"
  shows "is_aborted (cp_aborted (cp_select conversationId p)) c"
  using assms
  by (auto simp: cp_select_def cp_setCurrentConversationId_def cp_effect_def cp_effect_cleanup_def
      cp_loadConversation_start_def Let_def abort_def is_aborted_def nth_append
      split: option.splits)

lemma cp_stale_response_dropped:
  assumes "is_aborted (cp_aborted p) c"
  shows "cp_messages (cp_loadConversation_settle convId c reply p) = cp_messages p"
    and "cp_changed (cp_loadConversation_settle convId c reply p) = cp_changed p"
    and "cp_currentConversationId (cp_loadConversation_settle convId c reply p)
         = cp_currentConversationId p"
  using assms
  by (simp_all add: cp_loadConversation_settle_def axios_aborted cancelled_ignored)

lemma cp_latest_response_only:
  "cp_messages
     (cp_loadConversation_settle 1 1 (conversation_reply msg_one)
       (cp_loadConversation_settle 2 2 (conversation_reply msg_two)
         (cp_select (Some 2) (cp_select (Some 1) chat0))))
   = [msg_two\<lparr>created_at := None\<rparr>]"
  by (simp add: cp_select_def cp_setCurrentConversationId_def cp_effect_def cp_effect_cleanup_def
      cp_loadConversation_start_def cp_loadConversation_settle_def Let_def abort_def
      is_aborted_def axios_def ok_def conversation_reply_def chat0_def cp_mount_def
      not_cancelled_def CanceledError_def)

lemma length_abort: "length (abort r flags) = length flags"
  by (cases r) (simp_all add: abort_def)

lemma rerun_page:
  "cp_aborted (cp_effect (cp_effect_cleanup q))
     = abort (cp_abortControllerRef q) (cp_aborted q) @ [False]"
  "cp_abortControllerRef (cp_effect (cp_effect_cleanup q)) = Some (length (cp_aborted q))"
  "cp_currentConversationId (cp_effect (cp_effect_cleanup q)) = cp_currentConversationId q"
  "cp_changed (cp_effect (cp_effect_cleanup q)) = cp_changed q"
  "cp_requests (cp_effect (cp_effect_cleanup q))
     = cp_requests q @ (case cp_currentConversationId q of
                          None \<Rightarrow> []
                        | Some i \<Rightarrow> if i \<noteq> 0 then [GET_conversation i] else [])"
  by (simp_all add: cp_effect_def cp_effect_cleanup_def cp_loadConversation_start_def Let_def
      abort_twice length_abort split: option.splits)

lemma superseded:
  assumes "c < length flags" and "\<not> flags ! c \<longrightarrow> r = Some c"
  shows "(abort r flags @ [False]) ! c"
proof (cases r)
  case None
  then show ?thesis using assms by (simp add: abort_def nth_append)
next
  case (Some a)
  have "flags[a := True] ! c"
  proof (cases "a = c")
    case True
    then show ?thesis using assms by simp
  next
    case False
    then show ?thesis using assms Some by simp
  qed
  then show ?thesis using assms Some by (simp add: abort_def nth_append)
qed

lemma rerun_disciplined:
  assumes "disciplined w" and "cp_aborted q = cp_aborted (cw_page w)"
    and "cp_abortControllerRef q = cp_abortControllerRef (cw_page w)"
    and "cp_requests q = cp_requests (cw_page w)"
  shows "disciplined (issued (cw_page w) (cp_effect (cp_effect_cleanup q)) w)"
proof -
  let ?p = "cw_page w" and ?p' = "cp_effect (cp_effect_cleanup q)"
  have old_l: "\<And>i c. (i, c) \<in> set (cw_loads w) \<Longrightarrow> c < length (cp_aborted ?p') \<and> \<not> live ?p' c"
    using assms superseded [of _ "cp_aborted ?p" "cp_abortControllerRef ?p"]
    by (fastforce simp: disciplined_def live_def rerun_page length_abort)
  have old_s: "\<And>v c. (v, c) \<in> set (cw_sends w) \<Longrightarrow> c < length (cp_aborted ?p') \<and> \<not> live ?p' c"
    using assms superseded [of _ "cp_aborted ?p" "cp_abortControllerRef ?p"]
    by (fastforce simp: disciplined_def live_def rerun_page length_abort)
  have ap: "\<forall>(i, cur) \<in> set (cw_applied w). cur = Some i"
    using assms by (simp add: disciplined_def)
  show ?thesis
    unfolding disciplined_def
    using old_l old_s ap assms(2-4)
    by (auto simp: issued_def rerun_page length_abort Let_def split: option.splits)
qed


lemma frame_disciplined:
  assumes "disciplined w" and "cp_aborted q = cp_aborted (cw_page w)"
    and "cp_abortControllerRef q = cp_abortControllerRef (cw_page w)"
    and "cp_requests q = cp_requests (cw_page w)"
    and "cp_currentConversationId q = cp_currentConversationId (cw_page w)"
  shows "disciplined (issued (cw_page w) q w)"
  using assms by (simp add: disciplined_def issued_def live_def)

lemma select_disciplined: "disciplined w \<Longrightarrow> disciplined (cw_step (Select c) w)"
  by (simp add: cp_select_def cp_setCurrentConversationId_def frame_disciplined
      rerun_disciplined)

lemma files_disciplined: "disciplined w \<Longrightarrow> disciplined (cw_step (FilesChanged n) w)"
  by (simp add: cp_files_changed_def frame_disciplined rerun_disciplined)

lemma type_disciplined: "disciplined w \<Longrightarrow> disciplined (cw_step (Type t) w)"
  by (simp add: disciplined_def live_def)

lemma send_disciplined:
  assumes "disciplined w"
  shows "disciplined (cw_step Send w)"
proof (cases "handleSend_start (cw_page w) = cw_page w")
  case True
  then show ?thesis using assms frame_disciplined [of w "cw_page w"] by simp
next
  case False
  let ?p = "cw_page w" and ?p' = "handleSend_start (cw_page w)"
  have go: "\<not> (trim (cp_input ?p) = [] \<or> cp_loading ?p \<or> cp_streaming ?p)"
    using False by (auto simp: handleSend_start_def)
  have pg: "cp_aborted ?p' = abort (cp_abortControllerRef ?p) (cp_aborted ?p) @ [False]"
    "cp_abortControllerRef ?p' = Some (length (cp_aborted ?p))"
    "cp_currentConversationId ?p' = cp_currentConversationId ?p"
    "cp_requests ?p' = cp_requests ?p @
       [POST_chat (trim (cp_input ?p))
          (if truthy (cp_currentConversationId ?p) then cp_currentConversationId ?p else None)]"
    using go by (simp_all add: handleSend_start_def Let_def length_abort)
  have old_l: "\<And>i c. (i, c) \<in> set (cw_loads w) \<Longrightarrow> c < length (cp_aborted ?p') \<and> \<not> live ?p' c"
    using assms superseded [of _ "cp_aborted ?p" "cp_abortControllerRef ?p"]
    by (fastforce simp: disciplined_def live_def pg length_abort)
  have old_s: "\<And>v c. (v, c) \<in> set (cw_sends w) \<Longrightarrow> c < length (cp_aborted ?p') \<and> \<not> live ?p' c"
    using assms superseded [of _ "cp_aborted ?p" "cp_abortControllerRef ?p"]
    by (fastforce simp: disciplined_def live_def pg length_abort)
  have ap: "\<forall>(i, cur) \<in> set (cw_applied w). cur = Some i"
    using assms by (simp add: disciplined_def)
  show ?thesis
    unfolding disciplined_def
    using old_l old_s ap
    by (auto simp: issued_def pg length_abort Let_def)
qed

lemma load_settle_frame:
  "cp_aborted (cp_loadConversation_settle i c reply p) = cp_aborted p"
  "cp_abortControllerRef (cp_loadConversation_settle i c reply p) = cp_abortControllerRef p"
  "cp_currentConversationId (cp_loadConversation_settle i c reply p) = cp_currentConversationId p"
  by (auto simp: cp_loadConversation_settle_def cp_load_error_def
      split: settled.splits body.splits option.splits)

lemma load_applied_live:
  "cp_changed (cp_loadConversation_settle i c reply p) \<noteq> cp_changed p \<Longrightarrow>
   \<not> is_aborted (cp_aborted p) c"
  by (auto simp: cp_loadConversation_settle_def cp_load_error_def axios_def not_cancelled_def
      CanceledError_def split: settled.splits body.splits option.splits if_splits)

lemma load_settles_disciplined:
  assumes "disciplined w"
  shows "disciplined (cw_step (LoadSettles i c reply) w)"
proof (cases "(i, c) \<in> set (cw_loads w)")
  case False
  then show ?thesis using assms by simp
next
  case True
  then have c: "c < length (cp_aborted (cw_page w))"
    and l: "live (cw_page w) c \<Longrightarrow> cp_currentConversationId (cw_page w) = Some i"
    using assms by (auto simp: disciplined_def)
  have "cp_changed (cp_loadConversation_settle i c reply (cw_page w)) \<noteq> cp_changed (cw_page w)
        \<Longrightarrow> cp_currentConversationId (cw_page w) = Some i"
    using load_applied_live [of i c reply "cw_page w"] c l by (simp add: is_aborted_def live_def)
  then show ?thesis
    using assms True
    by (auto simp: disciplined_def live_def load_settle_frame Let_def)
qed

lemma send_body_frame:
  "cp_aborted (handleSend_body v c reply p) = cp_aborted p"
  "cp_abortControllerRef (handleSend_body v c reply p) = cp_abortControllerRef p"
  "cp_requests (handleSend_body v c reply p) = cp_requests p"
  by (auto simp: handleSend_body_def cp_send_error_def cp_adopt_def Let_def
      split: settled.splits body.splits option.splits)

lemma send_settles_disciplined:
  assumes "disciplined w"
  shows "disciplined (cw_step (SendSettles v c reply) w)"
  using assms
  by (simp add: handleSend_settle_def Let_def send_body_frame frame_disciplined
      rerun_disciplined)

lemma step_disciplined: "disciplined w \<Longrightarrow> disciplined (cw_step e w)"
  by (cases e)
    (simp_all only: select_disciplined files_disciplined type_disciplined send_disciplined
      load_settles_disciplined send_settles_disciplined)

lemma run_disciplined: "disciplined w \<Longrightarrow> disciplined (cw_run es w)"
  by (induction es arbitrary: w) (simp_all add: step_disciplined)

lemma mount_disciplined: "disciplined (cw_mount conversationId n)"
  by (cases conversationId)
    (auto simp: disciplined_def cw_mount_def cp_mount_def cp_setCurrentConversationId_def
      cp_effect_def cp_effect_cleanup_def cp_loadConversation_start_def Let_def abort_def
      live_def)

text \<open>
  So in ChatPage, whatever the order of selections, sends and replies, a reply of a
  load is written to the message list only when it is for the conversation selected
  at that moment.
\<close>

lemma cp_latest_selection_only:
  "(i, cur) \<in> set (cw_applied (cw_run es (cw_mount conversationId n))) \<Longrightarrow> cur = Some i"
  using run_disciplined [OF mount_disciplined, of es conversationId n]
  by (auto simp: disciplined_def)

section \<open>Unmounting with a request outstanding\<close>

lemma dm_unmount_cancels:
  assumes "dm_abortControllerRef s = Some c" and "c < length (dm_aborted s)"
  shows "is_aborted (dm_aborted (dm_unmount s)) c"
    and "loadDocuments_settle c reply (dm_unmount s) = dm_unmount s"
proof -
  show a: "is_aborted (dm_aborted (dm_unmount s)) c"
    using assms by (simp add: dm_unmount_def abort_current)
  show "loadDocuments_settle c reply (dm_unmount s) = dm_unmount s"
    using a by (simp add: loadDocuments_settle_def axios_aborted cancelled_ignored)
      (simp add: dm_unmount_def)
qed

lemma cp_unmount_cancels:
  assumes "cp_abortControllerRef p = Some c" and "c < length (cp_aborted p)"
  shows "is_aborted (cp_aborted (cp_unmount p)) c"
    and "cp_loadConversation_settle convId c reply (cp_unmount p) = cp_unmount p"
    and "handleSend_settle conv c reply' (cp_unmount p) = cp_unmount p"
proof -
  show a: "is_aborted (cp_aborted (cp_unmount p)) c"
    using assms by (simp add: cp_unmount_def cp_effect_cleanup_def abort_twice abort_current)
  show "cp_loadConversation_settle convId c reply (cp_unmount p) = cp_unmount p"
    using a by (simp add: cp_loadConversation_settle_def axios_aborted cancelled_ignored)
      (simp add: cp_unmount_def cp_effect_cleanup_def)
  have "handleSend_body conv c reply' (cp_unmount p) = cp_unmount p"
    using a by (simp add: handleSend_body_def axios_aborted cp_send_error_def cancelled_ignored)
      (simp add: cp_unmount_def cp_effect_cleanup_def)
  then show "handleSend_settle conv c reply' (cp_unmount p) = cp_unmount p"
    by (simp add: handleSend_settle_def)
qed

text \<open>
  The requests a component sends under its abort controller are cancelled when it
  unmounts: DocumentManager.loadDocuments, ChatPage.loadConversation and
  ChatPage.handleSend. Let the request be outstanding with the signal of the
  component's current controller. Unmounting aborts that controller. Whatever the
  network answers afterwards, the rest of the handler leaves the whole state of the
  component as the unmount left it: the promise rejects as cancelled, the \<open>catch\<close>
  takes the rejection and logs nothing, no list is written, the owner is not called,
  and the \<open>finally\<close> writes the loading flag the value the cleanup gave it already.
\<close>

lemma unmount_cancels_token:
  assumes "dm_abortControllerRef s = Some c" and "c < length (dm_aborted s)"
    and "cp_abortControllerRef p = Some k" and "k < length (cp_aborted p)"
  shows "is_aborted (dm_aborted (dm_unmount s)) c
       \<and> loadDocuments_settle c reply (dm_unmount s) = dm_unmount s
       \<and> is_aborted (cp_aborted (cp_unmount p)) k
       \<and> cp_loadConversation_settle convId k reply' (cp_unmount p) = cp_unmount p
       \<and> handleSend_settle conv k reply'' (cp_unmount p) = cp_unmount p"
  using dm_unmount_cancels [OF assms(1,2)] cp_unmount_cancels [OF assms(3,4)] by simp

lemma unmount_cancels_token_example:
  "dm_abortControllerRef (loadDocuments_start manager0) = Some 0
   \<and> 0 < length (dm_aborted (loadDocuments_start manager0))
   \<and> cp_abortControllerRef (handleSend_start (chat0\<lparr>cp_input := ''hello''\<rparr>)) = Some 1
   \<and> 1 < length (cp_aborted (handleSend_start (chat0\<lparr>cp_input := ''hello''\<rparr>)))
   \<and> is_aborted (dm_aborted (dm_unmount (loadDocuments_start manager0))) 0
   \<and> loadDocuments_settle 0 docs_reply (dm_unmount (loadDocuments_start manager0))
       = dm_unmount (loadDocuments_start manager0)
   \<and> dm_documents (loadDocuments_settle 0 docs_reply (loadDocuments_start manager0))
       = [doc_report]
   \<and> handleSend_settle None 1 NoConnection
         (cp_unmount (handleSend_start (chat0\<lparr>cp_input := ''hello''\<rparr>)))
       = cp_unmount (handleSend_start (chat0\<lparr>cp_input := ''hello''\<rparr>))"
proof -
  have t: "trim ''hello'' = ''hello''"
    by (simp add: trim_def is_whitespace_def js_whitespace_def)
  have h: "dm_abortControllerRef (loadDocuments_start manager0) = Some 0"
    "0 < length (dm_aborted (loadDocuments_start manager0))"
    by (simp_all add: loadDocuments_start_def manager0_def abort_def)
  have g: "cp_abortControllerRef (handleSend_start (chat0\<lparr>cp_input := ''hello''\<rparr>)) = Some 1"
    "1 < length (cp_aborted (handleSend_start (chat0\<lparr>cp_input := ''hello''\<rparr>)))"
    by (simp_all add: handleSend_start_def chat0_def cp_mount_def cp_setCurrentConversationId_def
        cp_effect_def abort_def Let_def t)
  have v: "dm_documents (loadDocuments_settle 0 docs_reply (loadDocuments_start manager0))
      = [doc_report]"
    by (simp add: loadDocuments_settle_def loadDocuments_start_def manager0_def abort_def
        docs_reply_def axios_def ok_def is_aborted_def)
  show ?thesis
    using unmount_cancels_token [OF h g, of docs_reply 1 r None NoConnection for r] h g v
    by simp
qed

text \<open>
  Claim C2 at inputs of ChatView. ChatView owns the fetch of loadConversation and the
  fetch of sendMessage, sends both without a signal and registers no cleanup, so
  unmounting it cancels nothing: the request stays out. When the reply arrives after
  the unmount the rest of the handler runs as if the view were there. With the view
  unmounted while conversation 1 loads, a failed load writes \<open>Load failed:\<close> to the
  console and a successful one takes the branch that writes the message list. With the
  view unmounted while the first message of a new conversation is being sent, the
  successful reply makes the handler call \<open>onConversationCreated\<close>: the owner, which is
  mounted, stores the new identifier and fetches the documents and the conversations
  again.
\<close>

theorem cv_settles_after_unmount:
  "cv_requests (cv_unmount (cv_select (Some 1) view0)) = [GET_conversation 1]
   \<and> cv_console
       (cv_loadConversation_settle NoConnection (cv_unmount (cv_select (Some 1) view0)))
       = [''Load failed:'']
   \<and> cv_messages
       (cv_loadConversation_settle (conversation_reply msg_one)
         (cv_unmount (cv_select (Some 1) view0))) = [msg_one]
   \<and> cv_requests (cv_unmount (cv_sendMessage_start 1 (view0\<lparr>cv_input := ''hello''\<rparr>)))
       = [POST_chat ''hello'' None]
   \<and> cv_created (cv_unmount (cv_sendMessage_start 1 (view0\<lparr>cv_input := ''hello''\<rparr>))) = []
   \<and> cv_created
       (cv_sendMessage_settle None 2 (Http 200 (Json (reply_created 42)))
         (cv_unmount (cv_sendMessage_start 1 (view0\<lparr>cv_input := ''hello''\<rparr>)))) = [42]
   \<and> onConversationCreated 42 app0
       = \<lparr>app_conversationId = Some 42, app_requests = [GET_documents, GET_conversations]\<rparr>
   \<and> cv_console
       (cv_sendMessage_settle None 2 NoConnection
         (cv_unmount (cv_sendMessage_start 1 (view0\<lparr>cv_input := ''hello''\<rparr>))))
       = [''Send failed:'']"
  by (simp add: cv_unmount_def cv_select_def cv_effect_def cv_mount_def view0_def
      cv_loadConversation_start_def cv_loadConversation_settle_def cv_load_failed_def
      conversation_reply_def cv_sendMessage_start_def cv_sendMessage_settle_def cv_adopt_def
      cv_send_failed_def reply_created_def onConversationCreated_def app0_def Let_def
      trim_def is_whitespace_def js_whitespace_def)

section \<open>Sending a chat message\<close>

lemma trim_empty: "trim [] = []"
  by (simp add: trim_def)

lemma trim_hello: "trim ''hello'' = ''hello''"
  by (simp add: trim_def is_whitespace_def js_whitespace_def)

text \<open>
  Claim C3. When the input is empty or only whitespace, or a send is in flight
  (\<open>isSending\<close> in ChatView, \<open>loading\<close> or \<open>streaming\<close> in ChatPage), the send handler
  returns the state it was given: the message list, the log of requests and every other
  field are unchanged, so no user message is added and no POST is issued. In particular
  for the inputs \<open>""\<close> and three spaces. A second call after a send has started changes
  nothing either, whatever was typed in between.
\<close>

theorem send_rejected_noop:
  "(trim (cv_input v) = [] \<or> cv_isSending v \<longrightarrow> cv_sendMessage_start now v = v)
   \<and> (trim (cp_input p) = [] \<or> cp_loading p \<or> cp_streaming p \<longrightarrow> handleSend_start p = p)
   \<and> cv_sendMessage_start now (v\<lparr>cv_input := []\<rparr>) = v\<lparr>cv_input := []\<rparr>
   \<and> cv_sendMessage_start now (v\<lparr>cv_input := ''   ''\<rparr>) = v\<lparr>cv_input := ''   ''\<rparr>
   \<and> handleSend_start (p\<lparr>cp_input := []\<rparr>) = p\<lparr>cp_input := []\<rparr>
   \<and> handleSend_start (p\<lparr>cp_input := ''   ''\<rparr>) = p\<lparr>cp_input := ''   ''\<rparr>
   \<and> cv_sendMessage_start now' ((cv_sendMessage_start now v)\<lparr>cv_input := t\<rparr>)
       = (if trim (cv_input v) = [] \<or> cv_isSending v
          then cv_sendMessage_start now' (v\<lparr>cv_input := t\<rparr>)
          else (cv_sendMessage_start now v)\<lparr>cv_input := t\<rparr>)
   \<and> handleSend_start ((handleSend_start p)\<lparr>cp_input := t\<rparr>)
       = (if trim (cp_input p) = [] \<or> cp_loading p \<or> cp_streaming p
          then handleSend_start (p\<lparr>cp_input := t\<rparr>)
          else (handleSend_start p)\<lparr>cp_input := t\<rparr>)"
  by (simp add: cv_sendMessage_start_def handleSend_start_def trim_empty trim_blank Let_def)

theorem send_rejected_noop_witness:
  "trim ''   '' = []
   \<and> cv_sendMessage_start 1 (view0\<lparr>cv_input := ''   ''\<rparr>) = view0\<lparr>cv_input := ''   ''\<rparr>
   \<and> handleSend_start (chat0\<lparr>cp_input := ''   ''\<rparr>) = chat0\<lparr>cp_input := ''   ''\<rparr>
   \<and> cv_isSending (cv_sendMessage_start 1 (view0\<lparr>cv_input := ''hello''\<rparr>))
   \<and> cv_sendMessage_start 2
         ((cv_sendMessage_start 1 (view0\<lparr>cv_input := ''hello''\<rparr>))\<lparr>cv_input := ''again''\<rparr>)
       = (cv_sendMessage_start 1 (view0\<lparr>cv_input := ''hello''\<rparr>))\<lparr>cv_input := ''again''\<rparr>
   \<and> cp_loading (handleSend_start (chat0\<lparr>cp_input := ''hello''\<rparr>))
   \<and> handleSend_start ((handleSend_start (chat0\<lparr>cp_input := ''hello''\<rparr>))\<lparr>cp_input := ''again''\<rparr>)
       = (handleSend_start (chat0\<lparr>cp_input := ''hello''\<rparr>))\<lparr>cp_input := ''again''\<rparr>"
proof -
  have a: "\<not> cv_isSending (view0\<lparr>cv_input := ''hello''\<rparr>)"
    "\<not> cp_loading (chat0\<lparr>cp_input := ''hello''\<rparr>)" "\<not> cp_streaming (chat0\<lparr>cp_input := ''hello''\<rparr>)"
    by (simp_all add: view0_def cv_mount_def cv_effect_def chat0_def cp_mount_def cp_setCurrentConversationId_def cp_effect_def Let_def)
  have b: "cv_isSending (cv_sendMessage_start 1 (view0\<lparr>cv_input := ''hello''\<rparr>))"
    "cp_loading (handleSend_start (chat0\<lparr>cp_input := ''hello''\<rparr>))"
    using a by (simp_all add: cv_sendMessage_start_def handleSend_start_def trim_hello Let_def)
  show ?thesis
    using send_rejected_noop [of "view0\<lparr>cv_input := ''hello''\<rparr>" 1
        "chat0\<lparr>cp_input := ''hello''\<rparr>" 2 "''again''"]
      send_rejected_noop [of view0 1 chat0 2 "''again''"] a b
    by (simp add: trim_hello trim_blank)
qed

text \<open>
  Once a component holds a conversation, every round keeps it and sends it: the
  requests of any number of rounds are the POSTs of the texts sent, each with that
  conversation.
\<close>

lemma cv_round_keeps:
  assumes "cv_currentConvId s = Some i" and "i \<noteq> 0" and "\<not> cv_isSending s"
  shows "cv_currentConvId (cv_round r s) = Some i \<and> \<not> cv_isSending (cv_round r s)
       \<and> cv_requests (cv_round r s)
           = cv_requests s @ map (\<lambda>t. POST_chat t (Some i)) (sent_texts [fst r])"
  using assms
  by (cases r)
    (auto simp: cv_round_def cv_sendMessage_start_def cv_sendMessage_settle_def cv_adopt_def
      cv_send_failed_def sent_texts_def Let_def split: net.splits body.splits option.splits)

lemma cv_rounds_keep:
  assumes "cv_currentConvId s = Some i" and "i \<noteq> 0" and "\<not> cv_isSending s"
  shows "cv_currentConvId (fold cv_round rs s) = Some i \<and> \<not> cv_isSending (fold cv_round rs s)
       \<and> cv_requests (fold cv_round rs s)
           = cv_requests s @ map (\<lambda>t. POST_chat t (Some i)) (sent_texts (map fst rs))"
  using assms
proof (induction rs arbitrary: s)
  case Nil
  then show ?case by (simp add: sent_texts_def)
next
  case (Cons r rs)
  from cv_round_keeps [OF Cons.prems, of r] Cons.IH [of "cv_round r s"] Cons.prems
  show ?case by (simp add: sent_texts_def)
qed

lemma cp_round_keeps:
  assumes "cp_currentConversationId s = Some i" and "i \<noteq> 0" and "\<not> cp_loading s"
    and "\<not> cp_streaming s"
  shows "cp_currentConversationId (cp_round r s) = Some i \<and> \<not> cp_loading (cp_round r s)
       \<and> \<not> cp_streaming (cp_round r s)
       \<and> cp_requests (cp_round r s)
           = cp_requests s @ map (\<lambda>t. POST_chat t (Some i)) (sent_texts [fst r])"
proof (cases r)
  case (Pair t reply)
  show ?thesis
  proof (cases "trim t = []")
    case True
    then show ?thesis using assms Pair by (simp add: cp_round_def sent_texts_def)
  next
    case False
    define s1 where "s1 = handleSend_start (s\<lparr>cp_input := t\<rparr>)"
    define c where "c = length (abort (cp_abortControllerRef s) (cp_aborted s))"
    have s1: "cp_abortControllerRef s1 = Some c" "cp_currentConversationId s1 = Some i"
      "cp_requests s1 = cp_requests s @ [POST_chat (trim t) (Some i)]" "\<not> cp_streaming s1"
      using assms False by (simp_all add: s1_def c_def handleSend_start_def Let_def)
    define b where "b = handleSend_body (Some i) c reply s1"
    have b: "cp_currentConversationId b = Some i" "\<not> cp_loading b" "\<not> cp_streaming b"
      "cp_requests b = cp_requests s1"
      using s1 assms
      by (auto simp: b_def handleSend_body_def cp_adopt_def cp_send_error_def Let_def
          split: settled.splits body.splits option.splits)
    have "cp_round r s = b"
      using assms False Pair s1 b
      by (simp add: cp_round_def Let_def s1_def [symmetric] handleSend_settle_def
          b_def [symmetric])
    then show ?thesis
      using b s1 False Pair by (simp add: sent_texts_def)
  qed
qed

lemma cp_rounds_keep:
  assumes "cp_currentConversationId s = Some i" and "i \<noteq> 0" and "\<not> cp_loading s"
    and "\<not> cp_streaming s"
  shows "cp_currentConversationId (fold cp_round rs s) = Some i
       \<and> cp_requests (fold cp_round rs s)
           = cp_requests s @ map (\<lambda>t. POST_chat t (Some i)) (sent_texts (map fst rs))"
  using assms
proof (induction rs arbitrary: s)
  case Nil
  then show ?case by (simp add: sent_texts_def)
next
  case (Cons r rs)
  from cp_round_keeps [OF Cons.prems, of r] Cons.IH [of "cp_round r s"] Cons.prems
  show ?case by (simp add: sent_texts_def)
qed

text \<open>
  What a first send does, component by component. The request of a send carries the
  conversation the component holds; when the reply says \<open>success\<close> and brings a
  conversation identifier while the component held none, the component takes it and
  tells its owner once.
\<close>

lemma cv_first_send:
  assumes "\<not> truthy (cv_currentConvId v)" and "trim (cv_input v) \<noteq> []" and "\<not> cv_isSending v"
    and "chat_success d" and "chat_conversation_id d = Some i" and "i \<noteq> 0"
  shows "let v1 = cv_sendMessage_start now v;
             v2 = cv_sendMessage_settle (cv_currentConvId v) now' (Http status (Json d)) v1
         in cv_requests v1 = cv_requests v @ [POST_chat (trim (cv_input v)) (cv_currentConvId v)]
          \<and> cv_currentConvId v2 = Some i
          \<and> cv_created v2 = cv_created v @ [i]
          \<and> cv_requests v2 = cv_requests v1
          \<and> \<not> cv_isSending v2"
  using assms
  by (simp add: Let_def cv_sendMessage_start_def cv_sendMessage_settle_def cv_adopt_def)

lemma cp_first_send:
  assumes "\<not> truthy (cp_currentConversationId p)" and "trim (cp_input p) \<noteq> []"
    and "\<not> cp_loading p" and "\<not> cp_streaming p" and "ok status"
    and "chat_success d" and "chat_conversation_id d = Some i" and "i \<noteq> 0"
  shows "let p1 = handleSend_start p;
             p2 = handleSend_settle (cp_currentConversationId p) (the (cp_abortControllerRef p1))
                    (Http status (Json d)) p1
         in cp_requests p1 = cp_requests p @ [POST_chat (trim (cp_input p)) None]
          \<and> cp_currentConversationId p2 = Some i
          \<and> cp_changed p2 = cp_changed p @ [i]
          \<and> cp_requests p2 = cp_requests p1 @ [GET_conversation i]
          \<and> \<not> cp_loading p2 \<and> \<not> cp_streaming p2"
proof -
  define p1 where "p1 = handleSend_start p"
  define c where "c = length (abort (cp_abortControllerRef p) (cp_aborted p))"
  have ref: "cp_abortControllerRef p1 = Some c"
    and live: "\<not> is_aborted (cp_aborted p1) c"
    and cur1: "cp_currentConversationId p1 = cp_currentConversationId p"
    and ch1: "cp_changed p1 = cp_changed p"
    and req1: "cp_requests p1 = cp_requests p @ [POST_chat (trim (cp_input p)) None]"
    using assms by (simp_all add: p1_def c_def handleSend_start_def Let_def fresh_signal_live)
  define b where "b = handleSend_body (cp_currentConversationId p) c (Http status (Json d)) p1"
  have b: "cp_currentConversationId b = Some i" "cp_changed b = cp_changed p @ [i]"
    "\<not> cp_loading b" "\<not> cp_streaming b" "cp_requests b = cp_requests p1"
    using assms live cur1 ch1
    by (simp_all add: b_def handleSend_body_def axios_def cp_adopt_def Let_def p1_def
        handleSend_start_def)
  define p2 where "p2 = handleSend_settle (cp_currentConversationId p) c (Http status (Json d)) p1"
  have ne: "cp_currentConversationId p \<noteq> Some i"
    using assms by auto
  have p2: "p2 = cp_effect (cp_effect_cleanup b)"
    using ne b(1) cur1 by (simp add: p2_def handleSend_settle_def Let_def b_def [symmetric])
  have e: "cp_currentConversationId p2 = Some i" "cp_changed p2 = cp_changed p @ [i]"
    "\<not> cp_loading p2" "\<not> cp_streaming p2" "cp_requests p2 = cp_requests p1 @ [GET_conversation i]"
    using b assms
    by (simp_all add: p2 cp_effect_def cp_effect_cleanup_def Let_def cp_loadConversation_start_def)
  show ?thesis
    unfolding Let_def p1_def [symmetric] ref option.sel p2_def [symmetric]
    using req1 e by simp
qed

text \<open>
  Claim C6. Let the component hold no conversation, the input not be blank and no send
  be in flight, and let the reply say \<open>success\<close> and bring the identifier \<open>i\<close>, not 0
  (ChatPage, through axios, also needs a status from 200 to 299). Then the first POST
  carries no conversation; after the reply the component holds \<open>i\<close> and has called its
  owner once with \<open>i\<close> (\<open>onConversationCreated\<close>, \<open>onConversationChange\<close>); and every
  send of every later round carries \<open>i\<close>. The owner stores \<open>i\<close> and asks for the
  conversation list again, and the sidebar's delete and rename for \<open>i\<close> are requests on
  \<open>i\<close>.
\<close>

theorem first_send_adopts_id:
  assumes "\<not> truthy (cv_currentConvId v)" and "trim (cv_input v) \<noteq> []" and "\<not> cv_isSending v"
    and "\<not> truthy (cp_currentConversationId p)" and "trim (cp_input p) \<noteq> []"
    and "\<not> cp_loading p" and "\<not> cp_streaming p" and "ok status'"
    and "chat_success d" and "chat_conversation_id d = Some i" and "i \<noteq> 0"
  shows "(let v1 = cv_sendMessage_start now v;
              v2 = cv_sendMessage_settle (cv_currentConvId v) now' (Http status (Json d)) v1;
              v3 = fold cv_round rs v2
          in cv_requests v1 = cv_requests v @ [POST_chat (trim (cv_input v)) (cv_currentConvId v)]
           \<and> cv_currentConvId v2 = Some i
           \<and> cv_created v2 = cv_created v @ [i]
           \<and> cv_currentConvId v3 = Some i
           \<and> cv_requests v3
               = cv_requests v1 @ map (\<lambda>t. POST_chat t (Some i)) (sent_texts (map fst rs)))
       \<and> (let p1 = handleSend_start p;
               p2 = handleSend_settle (cp_currentConversationId p) (the (cp_abortControllerRef p1))
                      (Http status' (Json d)) p1;
               p3 = fold cp_round rs' p2
           in cp_requests p1 = cp_requests p @ [POST_chat (trim (cp_input p)) None]
            \<and> cp_currentConversationId p2 = Some i
            \<and> cp_changed p2 = cp_changed p @ [i]
            \<and> cp_currentConversationId p3 = Some i
            \<and> cp_requests p3
                = cp_requests p2 @ map (\<lambda>t. POST_chat t (Some i)) (sent_texts (map fst rs')))
       \<and> app_conversationId (onConversationCreated i a) = Some i
       \<and> app_requests (onConversationCreated i a) = app_requests a @ [GET_documents, GET_conversations]
       \<and> app_conversationId (handleConversationChange i a) = Some i
       \<and> app_requests (handleConversationChange i a) = app_requests a @ [GET_conversations]
       \<and> app_requests (sidebar_handleDelete i True a) = app_requests a @ [DELETE_conversation i]
       \<and> app_requests (sidebar_handleEditSave i title a)
           = app_requests a @ [PATCH_conversation_title i title]"
proof -
  define v2 where
    "v2 = cv_sendMessage_settle (cv_currentConvId v) now' (Http status (Json d))
            (cv_sendMessage_start now v)"
  define p2 where
    "p2 = handleSend_settle (cp_currentConversationId p)
            (the (cp_abortControllerRef (handleSend_start p))) (Http status' (Json d))
            (handleSend_start p)"
  have cv: "cv_requests (cv_sendMessage_start now v)
        = cv_requests v @ [POST_chat (trim (cv_input v)) (cv_currentConvId v)]"
    "cv_currentConvId v2 = Some i" "cv_created v2 = cv_created v @ [i]"
    "cv_requests v2 = cv_requests (cv_sendMessage_start now v)" "\<not> cv_isSending v2"
    using cv_first_send [OF assms(1,2,3,9,10,11), of now now' status]
    by (simp_all add: Let_def v2_def)
  have cp: "cp_requests (handleSend_start p) = cp_requests p @ [POST_chat (trim (cp_input p)) None]"
    "cp_currentConversationId p2 = Some i" "cp_changed p2 = cp_changed p @ [i]"
    "\<not> cp_loading p2" "\<not> cp_streaming p2"
    using cp_first_send [OF assms(4,5,6,7,8,9,10,11)]
    by (simp_all add: Let_def p2_def)
  show ?thesis
    unfolding Let_def v2_def [symmetric] p2_def [symmetric]
    using cv cp cv_rounds_keep [OF cv(2) assms(11) cv(5), of rs]
      cp_rounds_keep [OF cp(2) assms(11) cp(4,5), of rs']
    by (simp add: onConversationCreated_def handleConversationChange_def sidebar_handleDelete_def
        sidebar_handleEditSave_def)
qed

theorem first_send_adopts_id_witness:
  "\<not> truthy (cv_currentConvId (view0\<lparr>cv_input := ''hello''\<rparr>))
   \<and> trim (cv_input (view0\<lparr>cv_input := ''hello''\<rparr>)) \<noteq> []
   \<and> \<not> cv_isSending (view0\<lparr>cv_input := ''hello''\<rparr>)
   \<and> \<not> truthy (cp_currentConversationId (chat0\<lparr>cp_input := ''hello''\<rparr>))
   \<and> \<not> cp_loading (chat0\<lparr>cp_input := ''hello''\<rparr>)
   \<and> ok 200 \<and> chat_success (reply_created 42)
   \<and> chat_conversation_id (reply_created 42) = Some 42
   \<and> cv_currentConvId
        (cv_sendMessage_settle (cv_currentConvId (view0\<lparr>cv_input := ''hello''\<rparr>)) 2
          (Http 200 (Json (reply_created 42)))
          (cv_sendMessage_start 1 (view0\<lparr>cv_input := ''hello''\<rparr>))) = Some 42
   \<and> cv_created
        (cv_sendMessage_settle (cv_currentConvId (view0\<lparr>cv_input := ''hello''\<rparr>)) 2
          (Http 200 (Json (reply_created 42)))
          (cv_sendMessage_start 1 (view0\<lparr>cv_input := ''hello''\<rparr>))) = [42]
   \<and> cv_requests
        (fold cv_round [(''again'', 3, 4, NoConnection), ('' '', 5, 6, NoConnection)]
          (cv_sendMessage_settle (cv_currentConvId (view0\<lparr>cv_input := ''hello''\<rparr>)) 2
            (Http 200 (Json (reply_created 42)))
            (cv_sendMessage_start 1 (view0\<lparr>cv_input := ''hello''\<rparr>))))
       = [POST_chat ''hello'' None, POST_chat ''again'' (Some 42)]
   \<and> cp_currentConversationId
        (handleSend_settle (cp_currentConversationId (chat0\<lparr>cp_input := ''hello''\<rparr>))
          (the (cp_abortControllerRef (handleSend_start (chat0\<lparr>cp_input := ''hello''\<rparr>))))
          (Http 200 (Json (reply_created 42)))
          (handleSend_start (chat0\<lparr>cp_input := ''hello''\<rparr>))) = Some 42
   \<and> cp_changed
        (handleSend_settle (cp_currentConversationId (chat0\<lparr>cp_input := ''hello''\<rparr>))
          (the (cp_abortControllerRef (handleSend_start (chat0\<lparr>cp_input := ''hello''\<rparr>))))
          (Http 200 (Json (reply_created 42)))
          (handleSend_start (chat0\<lparr>cp_input := ''hello''\<rparr>))) = [42]
   \<and> app_requests (sidebar_handleDelete 42 True app0) = [DELETE_conversation 42]"
proof -
  let ?v = "view0\<lparr>cv_input := ''hello''\<rparr>" and ?p = "chat0\<lparr>cp_input := ''hello''\<rparr>"
  have hv: "\<not> truthy (cv_currentConvId ?v)" "trim (cv_input ?v) \<noteq> []" "\<not> cv_isSending ?v"
    by (simp_all add: view0_def cv_mount_def cv_effect_def trim_hello)
  have hp: "\<not> truthy (cp_currentConversationId ?p)" "trim (cp_input ?p) \<noteq> []"
    "\<not> cp_loading ?p" "\<not> cp_streaming ?p"
    by (simp_all add: chat0_def cp_mount_def cp_setCurrentConversationId_def cp_effect_def Let_def
        trim_hello)
  have hd: "ok 200" "chat_success (reply_created 42)"
    "chat_conversation_id (reply_created 42) = Some 42" "(42::nat) \<noteq> 0"
    by (simp_all add: ok_def reply_created_def)
  have z: "cv_created ?v = []" "cp_changed ?p = []" "app_requests app0 = []"
    "cv_requests ?v = []" "cv_currentConvId ?v = None"
    by (simp_all add: view0_def cv_mount_def cv_effect_def chat0_def cp_mount_def
        cp_setCurrentConversationId_def cp_effect_def Let_def app0_def)
  have t: "sent_texts [''again'', '' ''] = [''again'']"
    by (simp add: sent_texts_def trim_def is_whitespace_def js_whitespace_def)
  from first_send_adopts_id [OF hv hp hd, of 1 2 200
      "[(''again'', 3, 4, NoConnection), ('' '', 5, 6, NoConnection)]" "[]" app0 "''Renamed''"]
  show ?thesis
    using hv hp hd z t by (simp add: Let_def trim_hello)
qed

section \<open>Failures of a send\<close>

lemma decimal_digits: "set (decimal n) \<subseteq> set ''0123456789''"
proof (induction n rule: decimal.induct)
  case (1 n)
  have d: "\<And>k. k < 10 \<Longrightarrow> ''0123456789'' ! k \<in> set ''0123456789''"
    by (rule nth_mem) simp
  show ?case
  proof (cases "n < 10")
    case True
    then show ?thesis using d [of n] by (subst decimal.simps) simp
  next
    case False
    have "n mod 10 < 10" by simp
    then show ?thesis
      using False "1.IH" d [of "n mod 10"] by (subst decimal.simps) simp
  qed
qed

lemma js_includes_set: "js_includes s q \<Longrightarrow> set q \<subseteq> set s"
  by (auto simp: js_includes_sublist sublist_def)

lemma status_message_not_network:
  "\<not> js_includes (''Request failed with status code '' @ decimal status) ''Network Error''"
proof
  assume "js_includes (''Request failed with status code '' @ decimal status) ''Network Error''"
  then have "CHR ''N'' \<in> set (''Request failed with status code '' @ decimal status)"
    using js_includes_set by fastforce
  then have "CHR ''N'' \<in> set (decimal status)"
    by simp
  then show False
    using decimal_digits [of status] by auto
qed

lemma errorMessage_network: "errorMessage NetworkError = cannot_connect"
  by (simp add: errorMessage_def NetworkError_def cannot_connect_def)

lemma errorMessage_status: "errorMessage (StatusError status b) \<noteq> cannot_connect"
  using status_message_not_network [of status]
  by (simp add: errorMessage_def StatusError_def cannot_connect_def)

lemma errorMessage_no_success: "errorMessage FailedToGetResponse = ''Error: Failed to get response''"
  by (simp add: errorMessage_def FailedToGetResponse_def response_detail_def)

text \<open>
  Claim C4 at an input of ChatView. A message is sent and \<open>POST /api/chat\<close> is answered
  with status 500 and a body that is not JSON. \<open>res.json()\<close> rejects inside the
  \<open>try\<close>, and the \<open>catch\<close> that is there for a failed connection appends its text: the
  assistant message for this server-side failure reads the same as the one for no
  connection at all.
\<close>

theorem cv_unreadable_reply_reported_as_connectivity:
  "content (last (cv_messages
      (cv_sendMessage_settle None 2 (Http 500 NotJson)
        (cv_sendMessage_start 1 (view0\<lparr>cv_input := ''hello''\<rparr>)))))
   = ''Failed to connect to server. Is the backend running?''
   \<and> content (last (cv_messages
      (cv_sendMessage_settle None 2 NoConnection
        (cv_sendMessage_start 1 (view0\<lparr>cv_input := ''hello''\<rparr>)))))
   = ''Failed to connect to server. Is the backend running?''"
  by (simp add: cv_sendMessage_settle_def cv_send_failed_def cv_error_message_def)

text \<open>
  The rest of the claim holds in both components. The user message is appended when
  the send starts; nothing that settles a send removes a message; every failure that
  is not a cancellation appends one assistant message. ChatPage tells a connection
  failure from every server-side failure, and ChatView tells it from a failure that
  the server reports in a JSON body.
\<close>

lemma cv_send_optimistic:
  "trim (cv_input v) \<noteq> [] \<Longrightarrow> \<not> cv_isSending v \<Longrightarrow>
   cv_messages (cv_sendMessage_start now v) = cv_messages v @
     [\<lparr>msg_id = Some now, role = ''user'', content = trim (cv_input v), sources = [],
       created_at = Some now\<rparr>]"
  by (simp add: cv_sendMessage_start_def)

lemma cv_send_never_removes:
  "prefix (cv_messages s) (cv_messages (cv_sendMessage_settle conv now reply s))"
  by (auto simp: cv_sendMessage_settle_def cv_send_failed_def cv_adopt_def Let_def
      split: net.splits body.splits option.splits)

lemma cv_send_failure_message:
  "reply = NoConnection \<or> reply = Http status NotJson \<Longrightarrow>
   cv_messages (cv_sendMessage_settle conv now reply s) = cv_messages s @
     [cv_error_message now ''Failed to connect to server. Is the backend running?'']"
  "\<not> chat_success d \<Longrightarrow>
   cv_messages (cv_sendMessage_settle conv now (Http status (Json d)) s) = cv_messages s @
     [cv_error_message now ''An error occurred. Please try again.'']"
  by (auto simp: cv_sendMessage_settle_def cv_send_failed_def)

lemma cp_send_optimistic:
  "trim (cp_input p) \<noteq> [] \<Longrightarrow> \<not> cp_loading p \<Longrightarrow> \<not> cp_streaming p \<Longrightarrow>
   cp_messages (handleSend_start p) = cp_messages p @
     [\<lparr>msg_id = None, role = ''user'', content = trim (cp_input p), sources = [],
       created_at = None\<rparr>]"
  by (simp add: handleSend_start_def Let_def)

lemma cp_effect_keeps_messages:
  "truthy (cp_currentConversationId s) \<Longrightarrow>
   cp_messages (cp_effect (cp_effect_cleanup s)) = cp_messages s"
  by (cases "cp_currentConversationId s")
    (simp_all add: cp_effect_def cp_effect_cleanup_def cp_loadConversation_start_def Let_def)

lemma handleSend_body_current:
  "cp_currentConversationId (handleSend_body conv c reply s) = cp_currentConversationId s
   \<or> truthy (cp_currentConversationId (handleSend_body conv c reply s))"
  by (auto simp: handleSend_body_def cp_send_error_def cp_adopt_def Let_def
      split: settled.splits body.splits option.splits)

lemma handleSend_body_never_removes:
  "prefix (cp_messages s) (cp_messages (handleSend_body conv c reply s))"
  by (auto simp: handleSend_body_def cp_send_error_def cp_adopt_def Let_def
      split: settled.splits body.splits option.splits)

lemma cp_send_never_removes:
  "prefix (cp_messages s) (cp_messages (handleSend_settle conv c reply s))"
  using handleSend_body_current [of conv c reply s] handleSend_body_never_removes [of s conv c reply]
  by (auto simp: handleSend_settle_def Let_def cp_effect_keeps_messages)

lemma cp_send_failure_message:
  assumes "\<not> is_aborted (cp_aborted s) c"
  shows "cp_messages (handleSend_settle conv c NoConnection s)
         = cp_messages s @ [cp_assistant cannot_connect []]"
    and "\<not> ok status \<Longrightarrow> cp_messages (handleSend_settle conv c (Http status b) s)
         = cp_messages s @ [cp_assistant (errorMessage (StatusError status b)) []]"
    and "ok status \<Longrightarrow> b = NotJson \<or> (\<exists>d. b = Json d \<and> \<not> chat_success d) \<Longrightarrow>
         cp_messages (handleSend_settle conv c (Http status b) s)
         = cp_messages s @ [cp_assistant ''Error: Failed to get response'' []]"
  using assms
  by (auto simp: handleSend_settle_def handleSend_body_def axios_def cp_send_error_def
      not_cancelled_def NetworkError_def StatusError_def FailedToGetResponse_def Let_def
      errorMessage_network [unfolded NetworkError_def]
      errorMessage_no_success [unfolded FailedToGetResponse_def])

section \<open>Deleting a document\<close>

text \<open>
  Claim C5 at an input of App.deleteDocument, called by DocumentsView.handleDelete. The
  cache holds documents 5 and 7; the delete of document 5 is answered with status 500.
  The cache is unchanged while the request is out and after the reply, as the claim
  says; but nothing is shown to the user and nothing is logged, and when the connection
  fails the error only reaches the console.
\<close>

theorem delete_failure_unreported:
  "documents (handleDelete 5 page0) = [doc_report, doc_notes]
   \<and> requests (handleDelete 5 page0) = [DELETE_document 5]
   \<and> documents (handleDelete_settle 5 (Http 500 NotJson) (handleDelete 5 page0))
       = [doc_report, doc_notes]
   \<and> alerts (handleDelete_settle 5 (Http 500 NotJson) (handleDelete 5 page0)) = []
   \<and> console (handleDelete_settle 5 (Http 500 NotJson) (handleDelete 5 page0)) = []
   \<and> alerts (handleDelete_settle 5 NoConnection (handleDelete 5 page0)) = []"
  by (simp add: handleDelete_def handleDelete_settle_def deleteDocument_start_def
      deleteDocument_settle_def page0_def ok_def)

text \<open>
  In both components the list is written only when the reply confirms the delete, and
  DocumentManager.handleDelete alerts the user when the request fails.
\<close>

lemma delete_not_optimistic:
  "documents (handleDelete i s) = documents s"
  "dm_documents (dm_handleDelete_start docId confirmed m) = dm_documents m"
  by (simp_all add: handleDelete_def deleteDocument_start_def dm_handleDelete_start_def)

lemma delete_applied_on_success_only:
  "documents (handleDelete_settle i reply s) =
     (case reply of
        Http status b \<Rightarrow> if ok status then filter (\<lambda>d. doc_id d \<noteq> i) (documents s) else documents s
      | NoConnection \<Rightarrow> documents s)"
  by (simp add: handleDelete_settle_def deleteDocument_settle_def split: net.splits)

lemma dm_delete_failure_alerts:
  assumes "reply = NoConnection \<or> (\<exists>status b. reply = Http status b \<and> \<not> ok status)"
  shows "dm_documents (dm_handleDelete_settle docId docs sel reply m) = dm_documents m"
    and "dm_alerts (dm_handleDelete_settle docId docs sel reply m)
         = dm_alerts m @ [''Failed to delete document. Please try again.'']"
  using assms by (auto simp: dm_handleDelete_settle_def axios_def)

section \<open>Validating files\<close>

lemma extension_exe: "extension ''report.exe'' = ''.exe''"
  by (simp add: extension_def toLowerCase_def lower_char_def lower_table_def)





text \<open>
  Where the two components part. A file whose MIME type and extension disagree is
  treated differently: \<open>malware.exe\<close> typed \<open>text/plain\<close> passes the check of UploadPage,
  which is content with either test, and goes out with the upload, while UploadView,
  which looks at the extension, drops it; \<open>sheet.csv\<close> typed
  \<open>application/vnd.ms-excel\<close> passes both. And where UploadPage shows its error for
  \<open>report.exe\<close>, UploadView drops the file and shows no result.
\<close>

lemma upload_components_differ:
  "validateFile malware_exe \<and> \<not> isValid malware_exe
   \<and> up_uploads (handleUpload_start (handleFilesSelect [malware_exe] (\<lambda>i. i) upload0))
       = [[malware_exe]]
   \<and> uv_files (addFiles [malware_exe] uview0) = []
   \<and> validateFile sheet_csv \<and> isValid sheet_csv \<and> file_mime sheet_csv \<notin> set allowedTypes
   \<and> fst (up_message (handleFilesSelect [report_exe] (\<lambda>i. i) upload0)) = ''error''
   \<and> uv_files (addFiles [report_exe] uview0) = []
   \<and> uv_result (addFiles [report_exe] uview0) = None"
proof -
  have e: "extension ''malware.exe'' = ''.exe''" "extension ''sheet.csv'' = ''.csv''"
    by (simp_all add: extension_def toLowerCase_def lower_char_def lower_table_def)
  have r: "validateFile malware_exe" "\<not> isValid malware_exe" "\<not> validateFile report_exe"
    "\<not> isValid report_exe" "validateFile sheet_csv" "isValid sheet_csv"
    by (simp_all add: validateFile_def isValid_def malware_exe_def report_exe_def sheet_csv_def
        e extension_exe allowedTypes_def allowedExtensions_def ALLOWED_def)
  show ?thesis
    using r
    by (simp add: handleFilesSelect_def handleUpload_start_def addFiles_def Let_def upload0_def
        uview0_def)
      (simp add: sheet_csv_def allowedTypes_def)
qed

end
